theory Spec2Isabelle
  imports Main "HOL-Library.Word" "HOL-Library.AList"
begin

unbundle bit_operations_syntax

section \<open>Errors\<close>

text \<open>
  A Go error is modelled by its kind and its message. The sentinel
  \<open>infradb.ErrKeyNotFound\<close> is the kind \<open>KeyNotFound\<close>; an error built by
  \<open>status.Errorf(code, msg)\<close> is the kind \<open>Code code\<close>; every other error
  (\<open>errors.New\<close>, \<open>fmt.Errorf\<close>, an error of a library) is \<open>Plain\<close>.
\<close>

datatype codes = InvalidArgument | NotFound

datatype error_kind = KeyNotFound | Code codes | Plain

datatype error = Error (kind: error_kind) (msg: string)

definition ErrKeyNotFound :: "string \<Rightarrow> error" where
  "ErrKeyNotFound m = Error KeyNotFound m"

definition status_Errorf :: "codes \<Rightarrow> string \<Rightarrow> error" where
  "status_Errorf c m = Error (Code c) m"

definition errors_New :: "string \<Rightarrow> error" where
  "errors_New m = Error Plain m"

fun code_name :: "codes \<Rightarrow> string" where
  "code_name InvalidArgument = ''InvalidArgument''"
| "code_name NotFound = ''NotFound''"

text \<open>The text \<open>%v\<close> and \<open>%s\<close> print for an error (its \<open>Error()\<close> string).\<close>

fun error_string :: "error \<Rightarrow> string" where
  "error_string (Error (Code c) m) = ''rpc error: code = '' @ code_name c @ '' desc = '' @ m"
| "error_string (Error k m) = m"

section \<open>Package common: components and subscribers\<close>

datatype ComponentStatus =
    ComponentStatusUnspecified
  | ComponentStatusPending
  | ComponentStatusSuccess
  | ComponentStatusError

text \<open>\<open>time.Duration\<close> is a signed 64-bit count of nanoseconds.\<close>

type_synonym Duration = "64 word"

definition Second :: Duration where
  "Second = 1000000000"

text \<open>
  Modelled from the spec: \<open>common.Component\<close> is declared outside the sources at hand;
  the spec gives the component status vector as
  \<open>{Name, CompStatus \<in> {Pending, Success, Error}, Details, Timer}\<close>, and these are
  the fields the sources read and write. A composite literal that names only some
  fields leaves the others at their zero value.
\<close>

record Component =
  Name :: string
  CompStatus :: ComponentStatus
  Details :: string
  Timer :: Duration

text \<open>The zero value \<open>var comp common.Component\<close>.\<close>

definition zeroComponent :: Component where
  "zeroComponent =
     \<lparr>Name = '''', CompStatus = ComponentStatusUnspecified, Details = '''', Timer = 0\<rparr>"

text \<open>
  Modelled from the spec: \<open>eventbus.Subscriber\<close> is declared outside the sources at
  hand; the spec lists \<open>Subscribers{Name, Priority, ...}\<close>, and the sources read its
  \<open>Name\<close> only.
\<close>

record Subscriber =
  Subscriber_Name :: string
  Subscriber_Priority :: int

text \<open>
  The loop every constructor runs over the subscribers of its kind:
  \<open>for _, sub := range subscribers { components = append(components,
  Component{Name: sub.Name, CompStatus: ComponentStatusPending, Details: ""}) }\<close>.
\<close>

fun pendingComponents :: "Subscriber list \<Rightarrow> Component list" where
  "pendingComponents [] = []"
| "pendingComponents (sub # subscribers) =
     \<lparr>Name = Subscriber_Name sub, CompStatus = ComponentStatusPending,
      Details = '''', Timer = 0\<rparr> # pendingComponents subscribers"

text \<open>
  The loop of every \<open>setComponentState\<close>:
  \<open>for i, comp := range components { if comp.Name == component.Name {
  in.Status.Components[i] = component; break } }\<close>.
\<close>

fun setComponentState_range :: "Component \<Rightarrow> Component list \<Rightarrow> Component list" where
  "setComponentState_range component [] = []"
| "setComponentState_range component (c # rest) =
     (if Name c = Name component then component # rest
      else c # setComponentState_range component rest)"

text \<open>
  The loop of every \<open>prepareObjectsForReplay\<close>, at index \<open>i\<close> of the components:
  a component named \<open>componentName\<close> or not in Success is overwritten with
  \<open>Component{Name: comp.Name, CompStatus: ComponentStatusPending, Details: ""}\<close>
  and \<open>subs[i]\<close> is appended to the result. Reading \<open>subs[i]\<close> past the end of
  \<open>subs\<close> panics: the result is \<open>None\<close>.
\<close>

fun prepareObjectsForReplay_range ::
  "string \<Rightarrow> 'sub list \<Rightarrow> nat \<Rightarrow> Component list \<Rightarrow> (Component list \<times> 'sub list) option" where
  "prepareObjectsForReplay_range componentName subs i [] = Some ([], [])"
| "prepareObjectsForReplay_range componentName subs i (c # rest) =
     (if Name c = componentName \<or> CompStatus c \<noteq> ComponentStatusSuccess then
        (if i < length subs then
           (case prepareObjectsForReplay_range componentName subs (Suc i) rest of
              None \<Rightarrow> None
            | Some (comps, tempSubs) \<Rightarrow>
                Some (\<lparr>Name = Name c, CompStatus = ComponentStatusPending,
                       Details = '''', Timer = 0\<rparr> # comps, subs ! i # tempSubs))
         else None)
      else
        (case prepareObjectsForReplay_range componentName subs (Suc i) rest of
           None \<Rightarrow> None
         | Some (comps, tempSubs) \<Rightarrow> Some (c # comps, tempSubs)))"

section \<open>Package net\<close>

record IPNet =
  IP :: "8 word list"
  Mask :: "8 word list"

text \<open>\<open>binary.BigEndian.PutUint32\<close> into a fresh four-byte \<open>net.IP\<close>.\<close>

definition PutUint32 :: "32 word \<Rightarrow> 8 word list" where
  "PutUint32 v = [ucast (drop_bit 24 v), ucast (drop_bit 16 v), ucast (drop_bit 8 v), ucast v]"

fun maskBytes :: "nat \<Rightarrow> nat \<Rightarrow> 8 word list" where
  "maskBytes 0 n = []"
| "maskBytes (Suc l) n =
     (if n \<ge> 8 then 255 # maskBytes l (n - 8)
      else NOT (drop_bit n (255 :: 8 word)) # maskBytes l 0)"

text \<open>\<open>net.CIDRMask(ones, bits)\<close>; the nil mask is the empty list.\<close>

definition CIDRMask :: "int \<Rightarrow> int \<Rightarrow> 8 word list" where
  "CIDRMask ones bits =
     (if bits \<noteq> 32 \<and> bits \<noteq> 128 then []
      else if ones < 0 \<or> ones > bits then []
      else maskBytes (nat (bits div 8)) (nat ones))"

section \<open>Protobuf messages (opi-api)\<close>

text \<open>
  The messages of the API are generated code outside the repository. A message is
  modelled with the fields the sources read. The \<open>Spec\<close> of a message is a required
  field, which request validation checks before a constructor is called, so a message is
  modelled with its \<open>Spec\<close> present; the \<open>Addr\<close> of a prefix is read through the
  nil-safe getter \<open>GetV4Addr\<close> and may be absent.
\<close>

datatype pb_IPAddress = V4Addr "32 word" | V6Addr "8 word list"

record pb_IPPrefix =
  Addr :: "pb_IPAddress option"
  Len :: "32 word"

fun GetV4Addr :: "pb_IPAddress option \<Rightarrow> 32 word" where
  "GetV4Addr (Some (V4Addr a)) = a"
| "GetV4Addr _ = 0"

record pb_SviSpec =
  pb_SviSpec_Vrf :: string
  pb_SviSpec_LogicalBridge :: string
  pb_SviSpec_MacAddress :: "8 word list"
  pb_SviSpec_GwIpPrefix :: "pb_IPPrefix list"
  pb_SviSpec_EnableBgp :: bool
  pb_SviSpec_RemoteAs :: "32 word"

record pb_Svi =
  pb_Svi_Name :: string
  pb_Svi_Spec :: pb_SviSpec

record pb_LogicalBridgeSpec =
  pb_LogicalBridgeSpec_VlanId :: "32 word"
  pb_LogicalBridgeSpec_Vni :: "32 word option"
  pb_LogicalBridgeSpec_VtepIpPrefix :: "pb_IPPrefix option"

record pb_LogicalBridge =
  pb_LogicalBridge_Name :: string
  pb_LogicalBridge_Spec :: pb_LogicalBridgeSpec

datatype pb_BridgePortType =
    BRIDGE_PORT_TYPE_UNSPECIFIED
  | BRIDGE_PORT_TYPE_ACCESS
  | BRIDGE_PORT_TYPE_TRUNK

record pb_BridgePortSpec =
  pb_BridgePortSpec_MacAddress :: "8 word list"
  pb_BridgePortSpec_Ptype :: pb_BridgePortType
  pb_BridgePortSpec_LogicalBridges :: "string list"

record pb_BridgePort =
  pb_BridgePort_Name :: string
  pb_BridgePort_Spec :: pb_BridgePortSpec

section \<open>Package infradb: Svi\<close>

text \<open>
  A pointer field of a domain object (\<open>Spec\<close>, \<open>Status\<close>, \<open>Metadata\<close>) is an
  option: \<open>None\<close> is the nil pointer, as in the empty object \<open>&Svi{}\<close>. A method
  that dereferences a nil \<open>Status\<close> panics: it returns \<open>None\<close>.
\<close>

datatype SviOperStatus =
    SviOperStatusUnspecified
  | SviOperStatusUp
  | SviOperStatusDown
  | SviOperStatusToBeDeleted

record SviStatus =
  SviStatus_SviOperStatus :: SviOperStatus
  SviStatus_Components :: "Component list"

record SviSpec =
  SviSpec_Vrf :: string
  SviSpec_LogicalBridge :: string
  SviSpec_MacAddress :: "8 word list option"
  SviSpec_GatewayIPs :: "IPNet list"
  SviSpec_EnableBgp :: bool
  SviSpec_RemoteAs :: "32 word option"

type_synonym SviMetadata = unit

record Svi =
  Svi_Name :: string
  Svi_Spec :: "SviSpec option"
  Svi_Status :: "SviStatus option"
  Svi_Metadata :: "SviMetadata option"
  Svi_ResourceVersion :: string

text \<open>The empty object \<open>&Svi{}\<close>.\<close>

definition emptySvi :: Svi where
  "emptySvi = \<lparr>Svi_Name = '''', Svi_Spec = None, Svi_Status = None, Svi_Metadata = None,
                Svi_ResourceVersion = ''''\<rparr>"

text \<open>The loop over \<open>in.Spec.GwIpPrefix\<close> of \<open>NewSvi\<close>.\<close>

fun parseGatewayIPs :: "pb_IPPrefix list \<Rightarrow> IPNet list" where
  "parseGatewayIPs [] = []"
| "parseGatewayIPs (gwIPPrefix # rest) =
     \<lparr>IP = PutUint32 (GetV4Addr (Addr gwIPPrefix)),
      Mask = CIDRMask (sint (Len gwIPPrefix)) 32\<rparr> # parseGatewayIPs rest"

text \<open>
  \<open>NewSvi\<close>. Its parameters are what it reads from outside: \<open>GetSubscribers\<close> is
  \<open>eventbus.EBus.GetSubscribers\<close>, \<open>generateVersion\<close> is the string the call
  \<open>generateVersion()\<close> returns. The result is the pair Go returns.
\<close>

definition NewSvi ::
  "(string \<Rightarrow> Subscriber list) \<Rightarrow> string \<Rightarrow> pb_Svi \<Rightarrow> Svi \<times> error option" where
  "NewSvi GetSubscribers generateVersion inp =
     (let macAddr = pb_SviSpec_MacAddress (pb_Svi_Spec inp);
          gwIPs = parseGatewayIPs (pb_SviSpec_GwIpPrefix (pb_Svi_Spec inp));
          subscribers = GetSubscribers ''svi''
      in if length subscribers = 0 then
           (emptySvi, Some (errors_New ''no subscribers found for svi''))
         else
           (\<lparr>Svi_Name = pb_Svi_Name inp,
             Svi_Spec = Some \<lparr>SviSpec_Vrf = pb_SviSpec_Vrf (pb_Svi_Spec inp),
                               SviSpec_LogicalBridge = pb_SviSpec_LogicalBridge (pb_Svi_Spec inp),
                               SviSpec_MacAddress = Some macAddr,
                               SviSpec_GatewayIPs = gwIPs,
                               SviSpec_EnableBgp = pb_SviSpec_EnableBgp (pb_Svi_Spec inp),
                               SviSpec_RemoteAs = Some (pb_SviSpec_RemoteAs (pb_Svi_Spec inp))\<rparr>,
             Svi_Status = Some \<lparr>SviStatus_SviOperStatus = SviOperStatusDown,
                                 SviStatus_Components = pendingComponents subscribers\<rparr>,
             Svi_Metadata = Some (),
             Svi_ResourceVersion = generateVersion\<rparr>, None))"

definition Svi_setComponentState :: "Svi \<Rightarrow> Component \<Rightarrow> Svi option" where
  "Svi_setComponentState svi component =
     (case Svi_Status svi of
        None \<Rightarrow> None
      | Some st \<Rightarrow>
          Some (svi\<lparr>Svi_Status := Some (st\<lparr>SviStatus_Components :=
                  setComponentState_range component (SviStatus_Components st)\<rparr>)\<rparr>))"

text \<open>
  \<open>prepareObjectsForReplay\<close> returns the subscribers to contact; the model returns
  them with the object as the method leaves it.
\<close>

definition Svi_prepareObjectsForReplay ::
  "string \<Rightarrow> string \<Rightarrow> 'sub list \<Rightarrow> Svi \<Rightarrow> (Svi \<times> 'sub list) option" where
  "Svi_prepareObjectsForReplay generateVersion componentName sviSubs svi =
     (case Svi_Status svi of
        None \<Rightarrow> None
      | Some st \<Rightarrow>
          (case prepareObjectsForReplay_range componentName sviSubs 0 (SviStatus_Components st) of
             None \<Rightarrow> None
           | Some (comps, tempSubs) \<Rightarrow>
               Some (svi\<lparr>Svi_Status := Some
                           \<lparr>SviStatus_SviOperStatus =
                              (if SviStatus_SviOperStatus st = SviOperStatusUp
                               then SviOperStatusDown else SviStatus_SviOperStatus st),
                            SviStatus_Components = comps\<rparr>,
                         Svi_ResourceVersion := generateVersion\<rparr>, tempSubs)))"

section \<open>Package infradb: LogicalBridge\<close>

datatype LogicalBridgeOperStatus =
    LogicalBridgeOperStatusUnspecified
  | LogicalBridgeOperStatusUp
  | LogicalBridgeOperStatusDown
  | LogicalBridgeOperStatusToBeDeleted

record LogicalBridgeStatus =
  LogicalBridgeStatus_LBOperStatus :: LogicalBridgeOperStatus
  LogicalBridgeStatus_Components :: "Component list"

record LogicalBridgeSpec =
  LogicalBridgeSpec_VlanID :: "32 word"
  LogicalBridgeSpec_Vni :: "32 word option"
  LogicalBridgeSpec_VtepIP :: "IPNet option"

type_synonym LogicalBridgeMetadata = unit

text \<open>
  The Go maps \<open>BridgePorts map[string]bool\<close> and \<open>MacTable map[string]string\<close> are
  association lists: \<open>m[k]\<close> is \<open>map_of m k\<close>, \<open>m[k] = v\<close> is
  \<open>AList.update k v m\<close>, \<open>delete(m, k)\<close> is \<open>AList.delete k m\<close>. The lists make
  "a key appears at most once" a property that can be stated: \<open>distinct (map fst m)\<close>.
\<close>

record LogicalBridge =
  LogicalBridge_Name :: string
  LogicalBridge_Spec :: "LogicalBridgeSpec option"
  LogicalBridge_Status :: "LogicalBridgeStatus option"
  LogicalBridge_Metadata :: "LogicalBridgeMetadata option"
  LogicalBridge_Svi :: string
  LogicalBridge_BridgePorts :: "(string \<times> bool) list"
  LogicalBridge_MacTable :: "(string \<times> string) list"
  LogicalBridge_ResourceVersion :: string

text \<open>The empty object \<open>&LogicalBridge{}\<close>.\<close>

definition emptyLogicalBridge :: LogicalBridge where
  "emptyLogicalBridge =
     \<lparr>LogicalBridge_Name = '''', LogicalBridge_Spec = None, LogicalBridge_Status = None,
      LogicalBridge_Metadata = None, LogicalBridge_Svi = '''', LogicalBridge_BridgePorts = [],
      LogicalBridge_MacTable = [], LogicalBridge_ResourceVersion = ''''\<rparr>"

text \<open>
  \<open>NewLogicalBridge\<close>. \<open>defaultVtepIP\<close> is what
  \<open>utils.GetIPAddress(config.GlobalConfig.LinuxFrr.DefaultVtep)\<close> returns.
\<close>

definition NewLogicalBridge ::
  "(string \<Rightarrow> Subscriber list) \<Rightarrow> string \<Rightarrow> IPNet \<Rightarrow> pb_LogicalBridge
     \<Rightarrow> LogicalBridge \<times> error option" where
  "NewLogicalBridge GetSubscribers generateVersion defaultVtepIP inp =
     (let vip = (case pb_LogicalBridgeSpec_VtepIpPrefix (pb_LogicalBridge_Spec inp) of
                   Some prefix \<Rightarrow> \<lparr>IP = PutUint32 (GetV4Addr (Addr prefix)),
                                    Mask = CIDRMask (sint (Len prefix)) 32\<rparr>
                 | None \<Rightarrow> defaultVtepIP);
          subscribers = GetSubscribers ''logical-bridge''
      in if length subscribers = 0 then
           (emptyLogicalBridge, Some (errors_New ''no subscribers found for logical bridge''))
         else
           (\<lparr>LogicalBridge_Name = pb_LogicalBridge_Name inp,
             LogicalBridge_Spec = Some
               \<lparr>LogicalBridgeSpec_VlanID = pb_LogicalBridgeSpec_VlanId (pb_LogicalBridge_Spec inp),
                LogicalBridgeSpec_Vni = pb_LogicalBridgeSpec_Vni (pb_LogicalBridge_Spec inp),
                LogicalBridgeSpec_VtepIP = Some vip\<rparr>,
             LogicalBridge_Status = Some
               \<lparr>LogicalBridgeStatus_LBOperStatus = LogicalBridgeOperStatusDown,
                LogicalBridgeStatus_Components = pendingComponents subscribers\<rparr>,
             LogicalBridge_Metadata = Some (),
             LogicalBridge_Svi = '''',
             LogicalBridge_BridgePorts = [],
             LogicalBridge_MacTable = [],
             LogicalBridge_ResourceVersion = generateVersion\<rparr>, None))"





definition LogicalBridge_setComponentState ::
  "LogicalBridge \<Rightarrow> Component \<Rightarrow> LogicalBridge option" where
  "LogicalBridge_setComponentState lb component =
     (case LogicalBridge_Status lb of
        None \<Rightarrow> None
      | Some st \<Rightarrow>
          Some (lb\<lparr>LogicalBridge_Status := Some (st\<lparr>LogicalBridgeStatus_Components :=
                  setComponentState_range component (LogicalBridgeStatus_Components st)\<rparr>)\<rparr>))"

definition LogicalBridge_prepareObjectsForReplay ::
  "string \<Rightarrow> string \<Rightarrow> 'sub list \<Rightarrow> LogicalBridge \<Rightarrow> (LogicalBridge \<times> 'sub list) option" where
  "LogicalBridge_prepareObjectsForReplay generateVersion componentName lbSubs lb =
     (case LogicalBridge_Status lb of
        None \<Rightarrow> None
      | Some st \<Rightarrow>
          (case prepareObjectsForReplay_range componentName lbSubs 0
                  (LogicalBridgeStatus_Components st) of
             None \<Rightarrow> None
           | Some (comps, tempSubs) \<Rightarrow>
               Some (lb\<lparr>LogicalBridge_Status := Some
                          \<lparr>LogicalBridgeStatus_LBOperStatus =
                             (if LogicalBridgeStatus_LBOperStatus st = LogicalBridgeOperStatusUp
                              then LogicalBridgeOperStatusDown
                              else LogicalBridgeStatus_LBOperStatus st),
                           LogicalBridgeStatus_Components = comps\<rparr>,
                        LogicalBridge_ResourceVersion := generateVersion\<rparr>, tempSubs)))"

section \<open>Package infradb: BridgePort\<close>

datatype BridgePortType = Unspecified | Access | Trunk

datatype BridgePortOperStatus =
    BridgePortOperStatusUnspecified
  | BridgePortOperStatusUp
  | BridgePortOperStatusDown
  | BridgePortOperStatusToBeDeleted

record BridgePortStatus =
  BridgePortStatus_BPOperStatus :: BridgePortOperStatus
  BridgePortStatus_Components :: "Component list"

record BridgePortSpec =
  BridgePortSpec_Name :: string
  BridgePortSpec_Ptype :: BridgePortType
  BridgePortSpec_MacAddress :: "8 word list option"
  BridgePortSpec_LogicalBridges :: "string list"

record BridgePortMetadata =
  VPort :: string

record BridgePort =
  BridgePort_Name :: string
  BridgePort_Spec :: "BridgePortSpec option"
  BridgePort_Status :: "BridgePortStatus option"
  BridgePort_Metadata :: "BridgePortMetadata option"
  BridgePort_TransparentTrunk :: bool
  BridgePort_Vlans :: "32 word list"
  BridgePort_ResourceVersion :: string

text \<open>The empty object \<open>&BridgePort{}\<close>.\<close>

definition emptyBridgePort :: BridgePort where
  "emptyBridgePort =
     \<lparr>BridgePort_Name = '''', BridgePort_Spec = None, BridgePort_Status = None,
      BridgePort_Metadata = None, BridgePort_TransparentTrunk = False, BridgePort_Vlans = [],
      BridgePort_ResourceVersion = ''''\<rparr>"

definition NewBridgePort ::
  "(string \<Rightarrow> Subscriber list) \<Rightarrow> string \<Rightarrow> pb_BridgePort \<Rightarrow> BridgePort \<times> error option" where
  "NewBridgePort GetSubscribers generateVersion inp =
     (let macAddr = pb_BridgePortSpec_MacAddress (pb_BridgePort_Spec inp);
          subscribers = GetSubscribers ''bridge-port''
      in if length subscribers = 0 then
           (emptyBridgePort, Some (errors_New ''no subscribers found for bridge port''))
         else
           (let transTrunk =
                  (if length (pb_BridgePortSpec_LogicalBridges (pb_BridgePort_Spec inp)) = 0
                   then True else False);
                bpType = (case pb_BridgePortSpec_Ptype (pb_BridgePort_Spec inp) of
                            BRIDGE_PORT_TYPE_ACCESS \<Rightarrow> Access
                          | BRIDGE_PORT_TYPE_TRUNK \<Rightarrow> Trunk
                          | _ \<Rightarrow> Unspecified)
            in (\<lparr>BridgePort_Name = pb_BridgePort_Name inp,
                  BridgePort_Spec = Some
                    \<lparr>BridgePortSpec_Name = '''',
                     BridgePortSpec_Ptype = bpType,
                     BridgePortSpec_MacAddress = Some macAddr,
                     BridgePortSpec_LogicalBridges =
                       pb_BridgePortSpec_LogicalBridges (pb_BridgePort_Spec inp)\<rparr>,
                  BridgePort_Status = Some
                    \<lparr>BridgePortStatus_BPOperStatus = BridgePortOperStatusDown,
                     BridgePortStatus_Components = pendingComponents subscribers\<rparr>,
                  BridgePort_Metadata = Some \<lparr>VPort = ''''\<rparr>,
                  BridgePort_TransparentTrunk = transTrunk,
                  BridgePort_Vlans = [],
                  BridgePort_ResourceVersion = generateVersion\<rparr>, None)))"

definition BridgePort_setComponentState :: "BridgePort \<Rightarrow> Component \<Rightarrow> BridgePort option" where
  "BridgePort_setComponentState bp component =
     (case BridgePort_Status bp of
        None \<Rightarrow> None
      | Some st \<Rightarrow>
          Some (bp\<lparr>BridgePort_Status := Some (st\<lparr>BridgePortStatus_Components :=
                  setComponentState_range component (BridgePortStatus_Components st)\<rparr>)\<rparr>))"

definition BridgePort_prepareObjectsForReplay ::
  "string \<Rightarrow> string \<Rightarrow> 'sub list \<Rightarrow> BridgePort \<Rightarrow> (BridgePort \<times> 'sub list) option" where
  "BridgePort_prepareObjectsForReplay generateVersion componentName bpSubs bp =
     (case BridgePort_Status bp of
        None \<Rightarrow> None
      | Some st \<Rightarrow>
          (case prepareObjectsForReplay_range componentName bpSubs 0
                  (BridgePortStatus_Components st) of
             None \<Rightarrow> None
           | Some (comps, tempSubs) \<Rightarrow>
               Some (bp\<lparr>BridgePort_Status := Some
                          \<lparr>BridgePortStatus_BPOperStatus =
                             (if BridgePortStatus_BPOperStatus st = BridgePortOperStatusUp
                              then BridgePortOperStatusDown
                              else BridgePortStatus_BPOperStatus st),
                           BridgePortStatus_Components = comps\<rparr>,
                        BridgePort_ResourceVersion := generateVersion\<rparr>, tempSubs)))"

section \<open>Package infradb: Sa\<close>

datatype SaOperStatus =
    SaOperStatusUnspecified
  | SaOperStatusUp
  | SaOperStatusDown
  | SaOperStatusToBeDeleted

datatype Protocol = IPSecProtoRSVD | IPSecProtoESP | IPSecProtoAH

datatype Mode = Mode_None | Transport | Tunnel | Beet | Pass | Drop

datatype CryptoAlg =
    RSVD | NULL | AES_CBC | AES_CTR | AES_CCM_8 | AES_CCM_12 | AES_CCM_16
  | AES_GCM_8 | AES_GCM_12 | AES_GCM_16 | NULL_AUTH_AES_GMAC | CHACHA20_POLY1305

datatype IntegAlg =
    NONE | HMAC_SHA1_96 | AES_XCBC_96 | AES_CMAC_96 | AES_128_GMAC | AES_192_GMAC
  | AES_256_GMAC | HMAC_SHA2_256_128 | HMAC_SHA2_384_192 | HMAC_SHA2_512_256 | UNDEFINED

datatype DscpCopy = OUT_ONLY | IN_ONLY | YES | NO

record Lifetime =
  Life :: "64 word"
  Rekey :: "64 word"
  Jitter :: "64 word"

record LifetimeCfg =
  LifetimeCfg_Time :: "Lifetime option"
  LifetimeCfg_Bytes :: "Lifetime option"
  LifetimeCfg_Packets :: "Lifetime option"

record SaStatus =
  SaStatus_SaOperStatus :: SaOperStatus
  SaStatus_Components :: "Component list"

record SaSpec =
  SaSpec_SrcIP :: "8 word list option"
  SaSpec_DstIP :: "8 word list option"
  SaSpec_Spi :: "32 word option"
  SaSpec_Protocol :: Protocol
  SaSpec_IfId :: "32 word"
  SaSpec_Mode :: Mode
  SaSpec_Interface :: string
  SaSpec_LifetimeCfg :: "LifetimeCfg option"
  SaSpec_EncAlg :: CryptoAlg
  SaSpec_EncKey :: "8 word list"
  SaSpec_IntAlg :: IntegAlg
  SaSpec_IntKey :: "8 word list"
  SaSpec_ReplayWindow :: "32 word"
  SaSpec_UdpEncap :: bool
  SaSpec_Esn :: bool
  SaSpec_CopyDf :: bool
  SaSpec_CopyEcn :: bool
  SaSpec_CopyDscp :: DscpCopy
  SaSpec_Inbound :: bool
  SaSpec_Vrf :: string

type_synonym SaMetadata = unit

record Sa =
  Sa_Name :: string
  Sa_Spec :: "SaSpec option"
  Sa_Status :: "SaStatus option"
  Sa_Metadata :: "SaMetadata option"
  Sa_Vrf :: string
  Sa_Index :: "32 word"
  Sa_OldVersions :: "string list"
  Sa_ResourceVersion :: string

definition Sa_setComponentState :: "Sa \<Rightarrow> Component \<Rightarrow> Sa option" where
  "Sa_setComponentState sa component =
     (case Sa_Status sa of
        None \<Rightarrow> None
      | Some st \<Rightarrow>
          Some (sa\<lparr>Sa_Status := Some (st\<lparr>SaStatus_Components :=
                  setComponentState_range component (SaStatus_Components st)\<rparr>)\<rparr>))"

definition Sa_prepareObjectsForReplay ::
  "string \<Rightarrow> string \<Rightarrow> 'sub list \<Rightarrow> Sa \<Rightarrow> (Sa \<times> 'sub list) option" where
  "Sa_prepareObjectsForReplay generateVersion componentName saSubs sa =
     (case Sa_Status sa of
        None \<Rightarrow> None
      | Some st \<Rightarrow>
          (case prepareObjectsForReplay_range componentName saSubs 0 (SaStatus_Components st) of
             None \<Rightarrow> None
           | Some (comps, tempSubs) \<Rightarrow>
               Some (sa\<lparr>Sa_Status := Some
                          \<lparr>SaStatus_SaOperStatus =
                             (if SaStatus_SaOperStatus st = SaOperStatusUp
                              then SaOperStatusDown else SaStatus_SaOperStatus st),
                           SaStatus_Components = comps\<rparr>,
                        Sa_ResourceVersion := generateVersion\<rparr>, tempSubs)))"

section \<open>Package infradb: Vrf and TunRep, as the frr module reads them\<close>

text \<open>
  Modelled from the spec: the declarations of \<open>infradb.Vrf\<close> and of
  \<open>infradb.TunRep\<close> are outside the sources at hand. The spec gives a Vrf a Name, a
  ResourceVersion, a Spec of optional VNI, LoopbackIP and VtepIP, and a Status of
  \<open>VrfOperStatus \<in> {Unspecified, Up, Down, ToBeDeleted}\<close> with ordered Components;
  it treats TunRep as a further kind with the same lifecycle. The records hold the
  fields the frr module reads.
\<close>

datatype VrfOperStatus =
    VrfOperStatusUnspecified
  | VrfOperStatusUp
  | VrfOperStatusDown
  | VrfOperStatusToBeDeleted

record VrfStatus =
  VrfStatus_VrfOperStatus :: VrfOperStatus
  VrfStatus_Components :: "Component list"

record VrfSpec =
  VrfSpec_Vni :: "32 word option"
  VrfSpec_LoopbackIP :: "IPNet option"
  VrfSpec_VtepIP :: "IPNet option"

record Vrf =
  Vrf_Name :: string
  Vrf_Spec :: "VrfSpec option"
  Vrf_Status :: "VrfStatus option"
  Vrf_ResourceVersion :: string

datatype TunRepOperStatus =
    TunRepOperStatusUnspecified
  | TunRepOperStatusUp
  | TunRepOperStatusDown
  | TunRepOperStatusToBeDeleted

record TunRepStatus =
  TunRepStatus_TunRepOperStatus :: TunRepOperStatus
  TunRepStatus_Components :: "Component list"

record TunRep =
  TunRep_Name :: string
  TunRep_Status :: "TunRepStatus option"
  TunRep_OldVersions :: "string list"
  TunRep_ResourceVersion :: string

section \<open>Package frr: the event handlers\<close>

definition frrComp :: string where
  "frrComp = ''frr''"

definition replayThreshold :: Duration where
  "replayThreshold = 64 * Second"

definition LF :: string where
  "LF = [CHR 0x0A]"

text \<open>
  Modelled from the spec: \<open>eventbus.ObjectData\<close> carries
  \<open>{Name, ResourceVersion, NotificationID}\<close> and no payload.
\<close>

record ObjectData =
  ObjectData_Name :: string
  ObjectData_ResourceVersion :: string
  ObjectData_NotificationID :: string

text \<open>
  What a handler reads from outside its package and from the FRR daemon is its
  environment: the \<open>Get\<close> functions of InfraDB; the outcome of the set-up and tear-down
  procedures, which talk to the daemon; and the method
  \<open>CheckReplayThreshold\<close> of \<open>common.Component\<close>, declared outside the sources at
  hand, as the component it leaves behind.
\<close>

record frr_env =
  GetVrf :: "string \<Rightarrow> error + Vrf"
  GetSvi :: "string \<Rightarrow> error + Svi"
  GetTunRep :: "string \<Rightarrow> error + TunRep"
  setUpVrf :: "Vrf \<Rightarrow> string \<times> bool"
  tearDownVrf :: "Vrf \<Rightarrow> string \<times> bool"
  setUpSvi :: "Svi \<Rightarrow> string \<times> bool"
  tearDownSvi :: "Svi \<Rightarrow> string \<times> bool"
  setUpTunRep :: "TunRep \<Rightarrow> bool"
  UpdateTunRep :: "TunRep \<Rightarrow> bool"
  tearDownTunRep :: "TunRep \<Rightarrow> bool"
  CheckReplayThreshold :: "Component \<Rightarrow> Duration \<Rightarrow> Component"

text \<open>
  What a handler does is the list of its calls, in order. A status update is
  \<open>Update<Kind>Status(name, resourceVersion, notificationID, nil, comp)\<close>; its error
  is logged and changes nothing. Log lines are left out.
\<close>

datatype frr_call =
    Call_setUpVrf Vrf
  | Call_tearDownVrf Vrf
  | Call_setUpSvi Svi
  | Call_tearDownSvi Svi
  | Call_setUpTunRep TunRep
  | Call_UpdateTunRep TunRep
  | Call_tearDownTunRep TunRep
  | Call_CheckReplayThreshold Component Duration
  | Call_UpdateVrfStatus string string string Component
  | Call_UpdateSviStatus string string string Component
  | Call_UpdateTunRepStatus string string string Component

text \<open>
  \<open>if comp.Timer == 0 { comp.Timer = 2 * time.Second } else { comp.Timer *= 2 }\<close>,
  in 64-bit arithmetic.
\<close>

definition backoffTimer :: "Duration \<Rightarrow> Duration" where
  "backoffTimer t = (if t = 0 then 2 * Second else t * 2)"

text \<open>
  \<open>for i := 0; i < len(components); i++ { if components[i].Name == frrComp {
  comp = components[i] } }\<close>: the last component of that name, or \<open>comp\<close> as it was.
\<close>

fun frrComponent :: "Component \<Rightarrow> Component list \<Rightarrow> Component" where
  "frrComponent cur [] = cur"
| "frrComponent cur (c # rest) = frrComponent (if Name c = frrComp then c else cur) rest"

definition handlevrf :: "frr_env \<Rightarrow> ObjectData \<Rightarrow> frr_call list option" where
  "handlevrf env objectData =
     (case GetVrf env (ObjectData_Name objectData) of
        Inl err \<Rightarrow>
          Some [Call_UpdateVrfStatus (ObjectData_Name objectData)
                  (ObjectData_ResourceVersion objectData) (ObjectData_NotificationID objectData)
                  (zeroComponent\<lparr>Name := frrComp, CompStatus := ComponentStatusError,
                     Details := ''GetVRF error: '' @ error_string err @ '' ''
                                  @ ObjectData_Name objectData @ LF,
                     Timer := backoffTimer (Timer zeroComponent)\<rparr>)]
      | Inr vrf \<Rightarrow>
          if ObjectData_ResourceVersion objectData \<noteq> Vrf_ResourceVersion vrf then
            Some [Call_UpdateVrfStatus (ObjectData_Name objectData)
                    (ObjectData_ResourceVersion objectData) (ObjectData_NotificationID objectData)
                    (zeroComponent\<lparr>Name := frrComp, CompStatus := ComponentStatusError,
                       Details := ''FRR: Mismatch in resoruce version ''
                                    @ ObjectData_ResourceVersion objectData @ LF
                                    @ '' and vrf resource version '' @ Vrf_ResourceVersion vrf @ LF,
                       Timer := backoffTimer (Timer zeroComponent)\<rparr>)]
          else
            (case Vrf_Status vrf of
               None \<Rightarrow> None
             | Some st \<Rightarrow>
                 (let cur = frrComponent zeroComponent (VrfStatus_Components st) in
                  if VrfStatus_VrfOperStatus st \<noteq> VrfOperStatusToBeDeleted then
                    (case setUpVrf env vrf of (detail, status) \<Rightarrow>
                       (let c = (if status then
                                   cur\<lparr>Name := frrComp, Details := detail,
                                       CompStatus := ComponentStatusSuccess, Timer := 0\<rparr>
                                 else
                                   cur\<lparr>Name := frrComp, Details := detail,
                                       Timer := backoffTimer (Timer cur),
                                       CompStatus := ComponentStatusError\<rparr>)
                        in Some [Call_setUpVrf vrf,
                                 Call_CheckReplayThreshold c replayThreshold,
                                 Call_UpdateVrfStatus (ObjectData_Name objectData)
                                   (ObjectData_ResourceVersion objectData)
                                   (ObjectData_NotificationID objectData)
                                   (CheckReplayThreshold env c replayThreshold)]))
                  else
                    (case tearDownVrf env vrf of (details, status) \<Rightarrow>
                       (let c = (if status then
                                   cur\<lparr>Name := frrComp, Details := details,
                                       CompStatus := ComponentStatusSuccess, Timer := 0\<rparr>
                                 else
                                   cur\<lparr>Name := frrComp, Details := details,
                                       Timer := backoffTimer (Timer cur),
                                       CompStatus := ComponentStatusError\<rparr>)
                        in Some [Call_tearDownVrf vrf,
                                 Call_CheckReplayThreshold c replayThreshold,
                                 Call_UpdateVrfStatus (ObjectData_Name objectData)
                                   (ObjectData_ResourceVersion objectData)
                                   (ObjectData_NotificationID objectData)
                                   (CheckReplayThreshold env c replayThreshold)])))))"

definition handlesvi :: "frr_env \<Rightarrow> ObjectData \<Rightarrow> frr_call list option" where
  "handlesvi env objectData =
     (case GetSvi env (ObjectData_Name objectData) of
        Inl err \<Rightarrow>
          Some [Call_UpdateSviStatus (ObjectData_Name objectData)
                  (ObjectData_ResourceVersion objectData) (ObjectData_NotificationID objectData)
                  (zeroComponent\<lparr>Name := frrComp, CompStatus := ComponentStatusError,
                     Details := ''GetSvi error: '' @ error_string err @ '' ''
                                  @ ObjectData_Name objectData @ LF,
                     Timer := backoffTimer (Timer zeroComponent)\<rparr>)]
      | Inr svi \<Rightarrow>
          if ObjectData_ResourceVersion objectData \<noteq> Svi_ResourceVersion svi then
            Some [Call_UpdateSviStatus (ObjectData_Name objectData)
                    (ObjectData_ResourceVersion objectData) (ObjectData_NotificationID objectData)
                    (zeroComponent\<lparr>Name := frrComp, CompStatus := ComponentStatusError,
                       Details := ''FRR: Mismatch in resoruce version ''
                                    @ ObjectData_ResourceVersion objectData @ LF
                                    @ '' and svi resource version '' @ Svi_ResourceVersion svi @ LF,
                       Timer := backoffTimer (Timer zeroComponent)\<rparr>)]
          else
            (case Svi_Status svi of
               None \<Rightarrow> None
             | Some st \<Rightarrow>
                 (let cur = frrComponent zeroComponent (SviStatus_Components st) in
                  if SviStatus_SviOperStatus st \<noteq> SviOperStatusToBeDeleted then
                    (case setUpSvi env svi of (details, status) \<Rightarrow>
                       (let c = (if status then
                                   cur\<lparr>Name := frrComp, Details := details,
                                       CompStatus := ComponentStatusSuccess, Timer := 0\<rparr>
                                 else
                                   cur\<lparr>Name := frrComp, Details := details,
                                       Timer := backoffTimer (Timer cur),
                                       CompStatus := ComponentStatusError\<rparr>)
                        in Some [Call_setUpSvi svi,
                                 Call_CheckReplayThreshold c replayThreshold,
                                 Call_UpdateSviStatus (ObjectData_Name objectData)
                                   (ObjectData_ResourceVersion objectData)
                                   (ObjectData_NotificationID objectData)
                                   (CheckReplayThreshold env c replayThreshold)]))
                  else
                    (case tearDownSvi env svi of (details, status) \<Rightarrow>
                       (let c = (if status then
                                   cur\<lparr>Name := frrComp, Details := details,
                                       CompStatus := ComponentStatusSuccess, Timer := 0\<rparr>
                                 else
                                   cur\<lparr>Name := frrComp, Details := details,
                                       Timer := backoffTimer (Timer cur),
                                       CompStatus := ComponentStatusError\<rparr>)
                        in Some [Call_tearDownSvi svi,
                                 Call_CheckReplayThreshold c replayThreshold,
                                 Call_UpdateSviStatus (ObjectData_Name objectData)
                                   (ObjectData_ResourceVersion objectData)
                                   (ObjectData_NotificationID objectData)
                                   (CheckReplayThreshold env c replayThreshold)])))))"

definition handleTunRep :: "frr_env \<Rightarrow> ObjectData \<Rightarrow> frr_call list option" where
  "handleTunRep env objectData =
     (case GetTunRep env (ObjectData_Name objectData) of
        Inl err \<Rightarrow>
          Some [Call_UpdateTunRepStatus (ObjectData_Name objectData)
                  (ObjectData_ResourceVersion objectData) (ObjectData_NotificationID objectData)
                  (zeroComponent\<lparr>Name := frrComp, CompStatus := ComponentStatusError,
                     Timer := backoffTimer (Timer zeroComponent)\<rparr>)]
      | Inr tr \<Rightarrow>
          if ObjectData_ResourceVersion objectData \<noteq> TunRep_ResourceVersion tr then
            Some [Call_UpdateTunRepStatus (ObjectData_Name objectData)
                    (ObjectData_ResourceVersion objectData) (ObjectData_NotificationID objectData)
                    (zeroComponent\<lparr>Name := frrComp, CompStatus := ComponentStatusError,
                       Timer := backoffTimer (Timer zeroComponent)\<rparr>)]
          else
            (case TunRep_Status tr of
               None \<Rightarrow> None
             | Some st \<Rightarrow>
                 (let cur = frrComponent zeroComponent (TunRepStatus_Components st) in
                  if TunRepStatus_TunRepOperStatus st \<noteq> TunRepOperStatusToBeDeleted then
                    (let status = (if length (TunRep_OldVersions tr) > 0
                                   then UpdateTunRep env tr else setUpTunRep env tr);
                         c = (if status then
                                cur\<lparr>Name := frrComp, Details := '''',
                                    CompStatus := ComponentStatusSuccess, Timer := 0\<rparr>
                              else
                                cur\<lparr>Name := frrComp, Timer := backoffTimer (Timer cur),
                                    CompStatus := ComponentStatusError\<rparr>)
                     in Some [if length (TunRep_OldVersions tr) > 0
                              then Call_UpdateTunRep tr else Call_setUpTunRep tr,
                              Call_CheckReplayThreshold c replayThreshold,
                              Call_UpdateTunRepStatus (ObjectData_Name objectData)
                                (ObjectData_ResourceVersion objectData)
                                (ObjectData_NotificationID objectData)
                                (CheckReplayThreshold env c replayThreshold)])
                  else
                    (let status = tearDownTunRep env tr;
                         c = (if status then
                                cur\<lparr>Name := frrComp, CompStatus := ComponentStatusSuccess,
                                    Timer := 0\<rparr>
                              else
                                cur\<lparr>Name := frrComp, CompStatus := ComponentStatusError,
                                    Timer := backoffTimer (Timer cur)\<rparr>)
                     in Some [Call_tearDownTunRep tr,
                              Call_CheckReplayThreshold c replayThreshold,
                              Call_UpdateTunRepStatus (ObjectData_Name objectData)
                                (ObjectData_ResourceVersion objectData)
                                (ObjectData_NotificationID objectData)
                                (CheckReplayThreshold env c replayThreshold)]))))"

text \<open>\<open>HandleEvent\<close>: an unknown event type is logged and nothing is called.\<close>

definition HandleEvent :: "frr_env \<Rightarrow> string \<Rightarrow> ObjectData \<Rightarrow> frr_call list option" where
  "HandleEvent env eventType objectData =
     (if eventType = ''vrf'' then handlevrf env objectData
      else if eventType = ''svi'' then handlesvi env objectData
      else if eventType = ''tun-rep'' then handleTunRep env objectData
      else Some [])"

section \<open>Package vrf: the gRPC handlers\<close>

text \<open>
  \<open>pb.Vrf\<close> is generated code outside the repository; the handlers read and write
  its \<open>Name\<close> and carry the rest along, so \<open>Spec\<close> and \<open>Status\<close> are of any type.
\<close>

record ('spec, 'status) pb_Vrf =
  pb_Vrf_Name :: string
  pb_Vrf_Spec :: 'spec
  pb_Vrf_Status :: 'status

record ('spec, 'status) CreateVrfRequest =
  CreateVrfRequest_VrfId :: string
  CreateVrfRequest_Vrf :: "('spec, 'status) pb_Vrf"

record ('spec, 'status) UpdateVrfRequest =
  UpdateVrfRequest_Vrf :: "('spec, 'status) pb_Vrf"
  UpdateVrfRequest_UpdateMask :: "string list option"
  UpdateVrfRequest_AllowMissing :: bool

text \<open>
  The handlers of \<open>Server\<close> call helpers of the package that are outside the sources at
  hand, and libraries. They are the handler's environment: the request validators; the
  identifier \<open>resourceid.NewSystemGenerated()\<close> returns; \<open>getVrf\<close>, which reads
  the state \<open>'st\<close> of the server and of InfraDB behind it; \<open>createVrf\<close> and
  \<open>updateVrf\<close>, which change that state (they persist the object and enqueue its
  task); and \<open>utils.ApplyMaskToStoredPbObject\<close>, as the object it leaves in its second
  argument.
\<close>

record ('st, 'spec, 'status) vrf_env =
  validateCreateVrfRequest :: "('spec, 'status) CreateVrfRequest \<Rightarrow> error option"
  validateUpdateVrfRequest :: "('spec, 'status) UpdateVrfRequest \<Rightarrow> error option"
  NewSystemGenerated :: string
  getVrf :: "'st \<Rightarrow> string \<Rightarrow> error + ('spec, 'status) pb_Vrf"
  createVrf :: "'st \<Rightarrow> ('spec, 'status) pb_Vrf \<Rightarrow> (error + ('spec, 'status) pb_Vrf) \<times> 'st"
  updateVrf :: "'st \<Rightarrow> ('spec, 'status) pb_Vrf \<Rightarrow> (error + ('spec, 'status) pb_Vrf) \<times> 'st"
  ApplyMaskToStoredPbObject ::
    "string list option \<Rightarrow> ('spec, 'status) pb_Vrf \<Rightarrow> ('spec, 'status) pb_Vrf
       \<Rightarrow> ('spec, 'status) pb_Vrf"

text \<open>
  Modelled from the spec: \<open>resourceIDToFullName\<close> of package vrf is outside the
  sources at hand (that of package port is among them, with \<open>"ports"\<close>); the spec
  gives the names of VRFs as \<open>//network.opiproject.org/vrfs/<id>\<close>.
\<close>

definition resourceIDToFullName :: "string \<Rightarrow> string" where
  "resourceIDToFullName resourceID = ''//network.opiproject.org/vrfs/'' @ resourceID"

text \<open>
  \<open>CreateVrf\<close>. The result is the response or the error, with the state the call
  leaves. \<open>return nil, err\<close> is \<open>Inl err\<close>.
\<close>

definition CreateVrf ::
  "('st, 'spec, 'status) vrf_env \<Rightarrow> 'st \<Rightarrow> ('spec, 'status) CreateVrfRequest
     \<Rightarrow> (error + ('spec, 'status) pb_Vrf) \<times> 'st" where
  "CreateVrf env s inp =
     (case validateCreateVrfRequest env inp of
        Some err \<Rightarrow> (Inl err, s)
      | None \<Rightarrow>
          (let resourceID = (if CreateVrfRequest_VrfId inp \<noteq> ''''
                             then CreateVrfRequest_VrfId inp else NewSystemGenerated env);
               vrf = (CreateVrfRequest_Vrf inp)\<lparr>pb_Vrf_Name := resourceIDToFullName resourceID\<rparr>
           in case getVrf env s (pb_Vrf_Name vrf) of
                Inl err \<Rightarrow>
                  if kind err \<noteq> KeyNotFound then (Inl err, s)
                  else createVrf env s vrf
              | Inr vrfObj \<Rightarrow> (Inr vrfObj, s)))"


section \<open>Package svi: validation\<close>

text \<open>
  \<open>validateSviSpec\<close>. \<open>resourcename.Validate\<close> is a library and
  \<open>utils.ValidateMacAddress\<close> is outside the sources at hand: both are parameters.
  The result is the error, or \<open>None\<close> for nil. The message handed to
  \<open>status.Errorf\<close> is kept as it is (Go reads it as a format, which changes it
  only where it holds a \<open>%\<close>).
\<close>

definition validateSviSpec ::
  "(string \<Rightarrow> error option) \<Rightarrow> (8 word list \<Rightarrow> error option) \<Rightarrow> pb_Svi \<Rightarrow> error option" where
  "validateSviSpec resourcename_Validate ValidateMacAddress svi =
     (case resourcename_Validate (pb_SviSpec_LogicalBridge (pb_Svi_Spec svi)) of
        Some err \<Rightarrow> Some err
      | None \<Rightarrow>
          (case resourcename_Validate (pb_SviSpec_Vrf (pb_Svi_Spec svi)) of
             Some err \<Rightarrow> Some err
           | None \<Rightarrow>
               (case ValidateMacAddress (pb_SviSpec_MacAddress (pb_Svi_Spec svi)) of
                  Some err \<Rightarrow>
                    Some (status_Errorf InvalidArgument
                            (''Invalid format of MAC Address: '' @ error_string err))
                | None \<Rightarrow>
                    if pb_SviSpec_RemoteAs (pb_Svi_Spec svi) > 65535 then
                      Some (status_Errorf InvalidArgument ''RemoteAs must be in range 1-65535'')
                    else None)))"

section \<open>The properties, in the words of the specification\<close>

text \<open>
  \<open>new\<close> is \<open>old\<close> with at most its first entry named as \<open>component\<close> replaced by
  \<open>component\<close>: same length, same order, every other entry as it was.
\<close>

definition replaces_first_match :: "Component \<Rightarrow> Component list \<Rightarrow> Component list \<Rightarrow> bool" where
  "replaces_first_match component old new \<longleftrightarrow>
     length new = length old \<and>
     (\<forall>i<length old. new ! i =
        (if Name (old ! i) = Name component \<and> (\<forall>j<i. Name (old ! j) \<noteq> Name component)
         then component else old ! i))"

text \<open>
  A component is replayed when it is the failing component or its last status is not
  Success; it is then reset to Pending with empty details.
\<close>

definition needsReplay :: "string \<Rightarrow> Component \<Rightarrow> bool" where
  "needsReplay componentName c \<longleftrightarrow>
     Name c = componentName \<or> CompStatus c \<noteq> ComponentStatusSuccess"

definition pendingOf :: "Component \<Rightarrow> Component" where
  "pendingOf c =
     \<lparr>Name = Name c, CompStatus = ComponentStatusPending, Details = '''', Timer = 0\<rparr>"

definition replayComponents :: "string \<Rightarrow> Component list \<Rightarrow> Component list" where
  "replayComponents componentName comps =
     map (\<lambda>c. if needsReplay componentName c then pendingOf c else c) comps"

text \<open>The subscribers at the indices of the replayed components, in order.\<close>

definition replaySubscribers :: "string \<Rightarrow> Component list \<Rightarrow> 'sub list \<Rightarrow> 'sub list" where
  "replaySubscribers componentName comps subs =
     map (\<lambda>i. subs ! i) (filter (\<lambda>i. needsReplay componentName (comps ! i)) [0..<length comps])"

text \<open>One Pending entry with empty details per subscriber, in the subscribers' order.\<close>

definition pendingPerSubscriber :: "Subscriber list \<Rightarrow> Component list \<Rightarrow> bool" where
  "pendingPerSubscriber subscribers comps \<longleftrightarrow>
     length comps = length subscribers \<and>
     (\<forall>i<length subscribers.
        Name (comps ! i) = Subscriber_Name (subscribers ! i) \<and>
        CompStatus (comps ! i) = ComponentStatusPending \<and>
        Details (comps ! i) = '''')"


section \<open>Concrete objects\<close>

text \<open>Objects at which the theorems below are evaluated.\<close>

definition example_components :: "Component list" where
  "example_components =
     [\<lparr>Name = ''lgm'', CompStatus = ComponentStatusSuccess, Details = '''', Timer = 0\<rparr>,
      \<lparr>Name = ''frr'', CompStatus = ComponentStatusError, Details = ''failed'',
       Timer = 4000000000\<rparr>,
      \<lparr>Name = ''frr'', CompStatus = ComponentStatusSuccess, Details = ''second'', Timer = 0\<rparr>]"

definition example_component :: Component where
  "example_component =
     \<lparr>Name = ''frr'', CompStatus = ComponentStatusSuccess, Details = ''ok'', Timer = 0\<rparr>"

definition example_subscribers :: "Subscriber list" where
  "example_subscribers =
     [\<lparr>Subscriber_Name = ''lgm'', Subscriber_Priority = 1\<rparr>,
      \<lparr>Subscriber_Name = ''frr'', Subscriber_Priority = 2\<rparr>,
      \<lparr>Subscriber_Name = ''lvm'', Subscriber_Priority = 3\<rparr>]"

definition example_GetSubscribers :: "string \<Rightarrow> Subscriber list" where
  "example_GetSubscribers eventType = example_subscribers"

definition no_GetSubscribers :: "string \<Rightarrow> Subscriber list" where
  "no_GetSubscribers eventType = []"

definition example_SviStatus :: SviStatus where
  "example_SviStatus =
     \<lparr>SviStatus_SviOperStatus = SviOperStatusUp, SviStatus_Components = example_components\<rparr>"

definition example_Svi :: Svi where
  "example_Svi =
     \<lparr>Svi_Name = ''//network.opiproject.org/svis/svi1'', Svi_Spec = None,
      Svi_Status = Some example_SviStatus, Svi_Metadata = Some (),
      Svi_ResourceVersion = ''v1''\<rparr>"

definition example_LogicalBridgeStatus :: LogicalBridgeStatus where
  "example_LogicalBridgeStatus =
     \<lparr>LogicalBridgeStatus_LBOperStatus = LogicalBridgeOperStatusUp,
      LogicalBridgeStatus_Components = example_components\<rparr>"

definition example_LogicalBridge :: LogicalBridge where
  "example_LogicalBridge =
     \<lparr>LogicalBridge_Name = ''//network.opiproject.org/bridges/lb9'',
      LogicalBridge_Spec = None, LogicalBridge_Status = Some example_LogicalBridgeStatus,
      LogicalBridge_Metadata = Some (), LogicalBridge_Svi = '''',
      LogicalBridge_BridgePorts = [(''//network.opiproject.org/ports/p1'', False)],
      LogicalBridge_MacTable = [(''aa:bb:cc:dd:ee:01'', ''//network.opiproject.org/ports/p1'')],
      LogicalBridge_ResourceVersion = ''v1''\<rparr>"

definition example_BridgePortStatus :: BridgePortStatus where
  "example_BridgePortStatus =
     \<lparr>BridgePortStatus_BPOperStatus = BridgePortOperStatusDown,
      BridgePortStatus_Components = example_components\<rparr>"

definition example_BridgePort :: BridgePort where
  "example_BridgePort =
     \<lparr>BridgePort_Name = ''//network.opiproject.org/ports/p1'', BridgePort_Spec = None,
      BridgePort_Status = Some example_BridgePortStatus, BridgePort_Metadata = None,
      BridgePort_TransparentTrunk = True, BridgePort_Vlans = [],
      BridgePort_ResourceVersion = ''v1''\<rparr>"

definition example_SaStatus :: SaStatus where
  "example_SaStatus =
     \<lparr>SaStatus_SaOperStatus = SaOperStatusToBeDeleted, SaStatus_Components = example_components\<rparr>"

definition example_Sa :: Sa where
  "example_Sa =
     \<lparr>Sa_Name = ''sa1'', Sa_Spec = None, Sa_Status = Some example_SaStatus,
      Sa_Metadata = Some (), Sa_Vrf = '''', Sa_Index = 0, Sa_OldVersions = [],
      Sa_ResourceVersion = ''v1''\<rparr>"

definition example_pb_Svi :: pb_Svi where
  "example_pb_Svi =
     \<lparr>pb_Svi_Name = ''//network.opiproject.org/svis/svi1'',
      pb_Svi_Spec =
        \<lparr>pb_SviSpec_Vrf = ''//network.opiproject.org/vrfs/v1'',
         pb_SviSpec_LogicalBridge = ''//network.opiproject.org/bridges/lb9'',
         pb_SviSpec_MacAddress = [170, 187, 204, 221, 238, 255],
         pb_SviSpec_GwIpPrefix = [\<lparr>Addr = Some (V4Addr 167772162), Len = 24\<rparr>],
         pb_SviSpec_EnableBgp = True,
         pb_SviSpec_RemoteAs = 65000\<rparr>\<rparr>"

definition example_pb_LogicalBridge :: pb_LogicalBridge where
  "example_pb_LogicalBridge =
     \<lparr>pb_LogicalBridge_Name = ''//network.opiproject.org/bridges/lb9'',
      pb_LogicalBridge_Spec =
        \<lparr>pb_LogicalBridgeSpec_VlanId = 22,
         pb_LogicalBridgeSpec_Vni = Some 11,
         pb_LogicalBridgeSpec_VtepIpPrefix = Some \<lparr>Addr = Some (V4Addr 167772162), Len = 24\<rparr>\<rparr>\<rparr>"

definition example_pb_BridgePort :: pb_BridgePort where
  "example_pb_BridgePort =
     \<lparr>pb_BridgePort_Name = ''//network.opiproject.org/ports/p1'',
      pb_BridgePort_Spec =
        \<lparr>pb_BridgePortSpec_MacAddress = [170, 187, 204, 221, 238, 1],
         pb_BridgePortSpec_Ptype = BRIDGE_PORT_TYPE_ACCESS,
         pb_BridgePortSpec_LogicalBridges = [''//network.opiproject.org/bridges/lb9'']\<rparr>\<rparr>"

definition example_defaultVtepIP :: IPNet where
  "example_defaultVtepIP = \<lparr>IP = [10, 0, 0, 1], Mask = [255, 255, 255, 0]\<rparr>"

definition example_resourcename_Validate :: "string \<Rightarrow> error option" where
  "example_resourcename_Validate name =
     (if name = '''' then Some (errors_New ''empty resource name'') else None)"

definition example_ValidateMacAddress :: "8 word list \<Rightarrow> error option" where
  "example_ValidateMacAddress mac =
     (if length mac = 6 then None else Some (errors_New ''invalid MAC address length''))"

definition example_pb_Svi_no_bgp :: pb_Svi where
  "example_pb_Svi_no_bgp =
     example_pb_Svi\<lparr>pb_Svi_Spec :=
       (pb_Svi_Spec example_pb_Svi)\<lparr>pb_SviSpec_EnableBgp := False, pb_SviSpec_RemoteAs := 0\<rparr>\<rparr>"

definition example_pb_Svi_large_as :: pb_Svi where
  "example_pb_Svi_large_as =
     example_pb_Svi\<lparr>pb_Svi_Spec := (pb_Svi_Spec example_pb_Svi)\<lparr>pb_SviSpec_RemoteAs := 70000\<rparr>\<rparr>"

definition example_frr_components :: "Component list" where
  "example_frr_components =
     [\<lparr>Name = ''lgm'', CompStatus = ComponentStatusSuccess, Details = [], Timer = 0\<rparr>,
      \<lparr>Name = ''frr'', CompStatus = ComponentStatusError, Details = ''failed'',
       Timer = 4000000000\<rparr>]"

definition example_VrfStatus :: VrfStatus where
  "example_VrfStatus =
     \<lparr>VrfStatus_VrfOperStatus = VrfOperStatusDown,
      VrfStatus_Components = example_frr_components\<rparr>"

definition example_Vrf :: Vrf where
  "example_Vrf =
     \<lparr>Vrf_Name = ''//network.opiproject.org/vrfs/v1'', Vrf_Spec = None,
      Vrf_Status = Some example_VrfStatus, Vrf_ResourceVersion = ''v1''\<rparr>"

definition example_TunRepStatus :: TunRepStatus where
  "example_TunRepStatus =
     \<lparr>TunRepStatus_TunRepOperStatus = TunRepOperStatusToBeDeleted,
      TunRepStatus_Components = example_frr_components\<rparr>"

definition example_TunRep :: TunRep where
  "example_TunRep =
     \<lparr>TunRep_Name = ''//network.opiproject.org/tunreps/t1'',
      TunRep_Status = Some example_TunRepStatus, TunRep_OldVersions = [],
      TunRep_ResourceVersion = ''v1''\<rparr>"

definition example_GetVrf :: "string \<Rightarrow> error + Vrf" where
  "example_GetVrf name =
     (if name = Vrf_Name example_Vrf then Inr example_Vrf
      else Inl (ErrKeyNotFound ''key not found''))"

definition example_GetSvi :: "string \<Rightarrow> error + Svi" where
  "example_GetSvi name =
     (if name = Svi_Name example_Svi then Inr example_Svi
      else Inl (ErrKeyNotFound ''key not found''))"

definition example_GetTunRep :: "string \<Rightarrow> error + TunRep" where
  "example_GetTunRep name =
     (if name = TunRep_Name example_TunRep then Inr example_TunRep
      else Inl (ErrKeyNotFound ''key not found''))"


definition succeeding :: "'a \<Rightarrow> string \<times> bool" where
  "succeeding obj = ('''', True)"


definition succeeding_TunRep :: "TunRep \<Rightarrow> bool" where
  "succeeding_TunRep tr = True"

definition same_Component :: "Component \<Rightarrow> Duration \<Rightarrow> Component" where
  "same_Component c threshold = c"


definition succeeding_frr_env :: frr_env where
  "succeeding_frr_env =
     \<lparr>GetVrf = example_GetVrf, GetSvi = example_GetSvi, GetTunRep = example_GetTunRep,
      setUpVrf = succeeding, tearDownVrf = succeeding, setUpSvi = succeeding,
      tearDownSvi = succeeding, setUpTunRep = succeeding_TunRep,
      UpdateTunRep = succeeding_TunRep, tearDownTunRep = succeeding_TunRep,
      CheckReplayThreshold = same_Component\<rparr>"

definition vrf_ObjectData :: "string \<Rightarrow> ObjectData" where
  "vrf_ObjectData version =
     \<lparr>ObjectData_Name = ''//network.opiproject.org/vrfs/v1'',
      ObjectData_ResourceVersion = version, ObjectData_NotificationID = ''n1''\<rparr>"

definition svi_ObjectData :: "string \<Rightarrow> ObjectData" where
  "svi_ObjectData version =
     \<lparr>ObjectData_Name = ''//network.opiproject.org/svis/svi1'',
      ObjectData_ResourceVersion = version, ObjectData_NotificationID = ''n2''\<rparr>"

definition tunrep_ObjectData :: "string \<Rightarrow> ObjectData" where
  "tunrep_ObjectData version =
     \<lparr>ObjectData_Name = ''//network.opiproject.org/tunreps/t1'',
      ObjectData_ResourceVersion = version, ObjectData_NotificationID = ''n3''\<rparr>"

text \<open>
  A server whose state is the list of stored VRFs by name, with a \<open>Spec\<close> that is a
  VNI and an update mask that replaces the \<open>Spec\<close> when it names it.
\<close>

type_synonym example_pb_Vrf = "(nat, unit) pb_Vrf"

definition example_validateCreateVrfRequest ::
  "(nat, unit) CreateVrfRequest \<Rightarrow> error option" where
  "example_validateCreateVrfRequest req =
     (if CreateVrfRequest_VrfId req \<noteq> '''' \<and> length (CreateVrfRequest_VrfId req) < 4
      then Some (errors_New ''user-settable ID must be between 4 and 63 characters'')
      else None)"

definition example_validateUpdateVrfRequest ::
  "(nat, unit) UpdateVrfRequest \<Rightarrow> error option" where
  "example_validateUpdateVrfRequest req =
     (if pb_Vrf_Name (UpdateVrfRequest_Vrf req) = ''''
      then Some (errors_New ''missing required field: vrf.name'') else None)"

definition example_getVrf ::
  "(string \<times> example_pb_Vrf) list \<Rightarrow> string \<Rightarrow> error + example_pb_Vrf" where
  "example_getVrf s name =
     (case map_of s name of
        None \<Rightarrow> Inl (ErrKeyNotFound ''key not found'')
      | Some vrf \<Rightarrow> Inr vrf)"

definition example_storeVrf ::
  "(string \<times> example_pb_Vrf) list \<Rightarrow> example_pb_Vrf
     \<Rightarrow> (error + example_pb_Vrf) \<times> (string \<times> example_pb_Vrf) list" where
  "example_storeVrf s vrf = (Inr vrf, AList.update (pb_Vrf_Name vrf) vrf s)"

definition example_ApplyMask ::
  "string list option \<Rightarrow> example_pb_Vrf \<Rightarrow> example_pb_Vrf \<Rightarrow> example_pb_Vrf" where
  "example_ApplyMask updateMask dst src =
     (case updateMask of
        None \<Rightarrow> dst
      | Some paths \<Rightarrow> if ''spec'' \<in> set paths then dst\<lparr>pb_Vrf_Spec := pb_Vrf_Spec src\<rparr> else dst)"

definition example_vrf_env :: "((string \<times> example_pb_Vrf) list, nat, unit) vrf_env" where
  "example_vrf_env =
     \<lparr>validateCreateVrfRequest = example_validateCreateVrfRequest,
      validateUpdateVrfRequest = example_validateUpdateVrfRequest,
      NewSystemGenerated = ''0b8f2c1e-6a3d-4f5b-9c7a-1d2e3f4a5b6c'',
      getVrf = example_getVrf,
      createVrf = example_storeVrf,
      updateVrf = example_storeVrf,
      ApplyMaskToStoredPbObject = example_ApplyMask\<rparr>"

definition stored_pb_Vrf :: example_pb_Vrf where
  "stored_pb_Vrf =
     \<lparr>pb_Vrf_Name = ''//network.opiproject.org/vrfs/vrf1'', pb_Vrf_Spec = 100,
      pb_Vrf_Status = ()\<rparr>"

definition example_store :: "(string \<times> example_pb_Vrf) list" where
  "example_store = [(''//network.opiproject.org/vrfs/vrf1'', stored_pb_Vrf)]"

definition example_CreateVrfRequest :: "(nat, unit) CreateVrfRequest" where
  "example_CreateVrfRequest =
     \<lparr>CreateVrfRequest_VrfId = ''vrf1'',
      CreateVrfRequest_Vrf = \<lparr>pb_Vrf_Name = '''', pb_Vrf_Spec = 200, pb_Vrf_Status = ()\<rparr>\<rparr>"


section \<open>CreateVrf and UpdateVrf\<close>

lemma CreateVrf_existing:
  assumes "validateCreateVrfRequest env inp = None"
    and "getVrf env s
           (resourceIDToFullName
              (if CreateVrfRequest_VrfId inp \<noteq> '''' then CreateVrfRequest_VrfId inp
               else NewSystemGenerated env)) = Inr vrfObj"
  shows "CreateVrf env s inp = (Inr vrfObj, s) \<and>
         (\<forall>create. CreateVrf (env\<lparr>createVrf := create\<rparr>) s inp = (Inr vrfObj, s))"
  using assms by (auto simp: CreateVrf_def Let_def)

lemma CreateVrf_twice:
  assumes "validateCreateVrfRequest env inp = None"
    and "validateCreateVrfRequest env inp' = None"
    and "CreateVrfRequest_VrfId inp \<noteq> ''''"
    and "CreateVrfRequest_VrfId inp' = CreateVrfRequest_VrfId inp"
    and "CreateVrf env s inp = (Inr created, s1)"
    and "getVrf env s1 (resourceIDToFullName (CreateVrfRequest_VrfId inp)) = Inr stored"
  shows "CreateVrf env s1 inp' = (Inr stored, s1)"
  using assms by (auto simp: CreateVrf_def Let_def)

text \<open>
  C1. For every CreateVrf request that request validation lets through to the look-up
  and whose derived object name already exists in the store (\<open>getVrf\<close> returns an
  object for it), \<open>CreateVrf\<close> returns the stored object, not the request's, and
  leaves the state as it was, whatever \<open>createVrf\<close> would do: nothing is created or
  changed. Hence of two successive calls with the same id, the second returns the
  object the store holds after the first and changes nothing.
\<close>

theorem CreateVrf_idempotent:
  "(validateCreateVrfRequest env inp = None \<and>
    getVrf env s
      (resourceIDToFullName
         (if CreateVrfRequest_VrfId inp \<noteq> '''' then CreateVrfRequest_VrfId inp
          else NewSystemGenerated env)) = Inr vrfObj \<longrightarrow>
      CreateVrf env s inp = (Inr vrfObj, s) \<and>
      (\<forall>create. CreateVrf (env\<lparr>createVrf := create\<rparr>) s inp = (Inr vrfObj, s))) \<and>
   (validateCreateVrfRequest env inp = None \<and>
    validateCreateVrfRequest env inp' = None \<and>
    CreateVrfRequest_VrfId inp \<noteq> '''' \<and>
    CreateVrfRequest_VrfId inp' = CreateVrfRequest_VrfId inp \<and>
    CreateVrf env s inp = (Inr created, s1) \<and>
    getVrf env s1 (resourceIDToFullName (CreateVrfRequest_VrfId inp)) = Inr stored \<longrightarrow>
      CreateVrf env s1 inp' = (Inr stored, s1))"
  using CreateVrf_existing [of env inp s vrfObj]
    CreateVrf_twice [of env inp inp' s created s1 stored]
  by blast

theorem CreateVrf_idempotent_witness:
  "validateCreateVrfRequest example_vrf_env example_CreateVrfRequest = None \<and>
   getVrf example_vrf_env example_store
     (resourceIDToFullName
        (if CreateVrfRequest_VrfId example_CreateVrfRequest \<noteq> ''''
         then CreateVrfRequest_VrfId example_CreateVrfRequest
         else NewSystemGenerated example_vrf_env)) = Inr stored_pb_Vrf \<and>
   CreateVrf example_vrf_env example_store example_CreateVrfRequest =
     (Inr stored_pb_Vrf, example_store) \<and>
   CreateVrfRequest_VrfId example_CreateVrfRequest \<noteq> '''' \<and>
   CreateVrf example_vrf_env [] example_CreateVrfRequest =
     (Inr (stored_pb_Vrf\<lparr>pb_Vrf_Spec := 200\<rparr>),
      [(''//network.opiproject.org/vrfs/vrf1'', stored_pb_Vrf\<lparr>pb_Vrf_Spec := 200\<rparr>)]) \<and>
   getVrf example_vrf_env
     [(''//network.opiproject.org/vrfs/vrf1'', stored_pb_Vrf\<lparr>pb_Vrf_Spec := 200\<rparr>)]
     (resourceIDToFullName (CreateVrfRequest_VrfId example_CreateVrfRequest)) =
     Inr (stored_pb_Vrf\<lparr>pb_Vrf_Spec := 200\<rparr>) \<and>
   CreateVrf example_vrf_env
     [(''//network.opiproject.org/vrfs/vrf1'', stored_pb_Vrf\<lparr>pb_Vrf_Spec := 200\<rparr>)]
     (example_CreateVrfRequest\<lparr>CreateVrfRequest_Vrf :=
        (CreateVrfRequest_Vrf example_CreateVrfRequest)\<lparr>pb_Vrf_Spec := 300\<rparr>\<rparr>) =
     (Inr (stored_pb_Vrf\<lparr>pb_Vrf_Spec := 200\<rparr>),
      [(''//network.opiproject.org/vrfs/vrf1'', stored_pb_Vrf\<lparr>pb_Vrf_Spec := 200\<rparr>)])"
  using CreateVrf_idempotent
          [of example_vrf_env example_CreateVrfRequest example_store stored_pb_Vrf]
  by (simp add: CreateVrf_def Let_def example_vrf_env_def example_CreateVrfRequest_def
      example_store_def stored_pb_Vrf_def example_validateCreateVrfRequest_def
      example_getVrf_def example_storeVrf_def resourceIDToFullName_def ErrKeyNotFound_def)




section \<open>The FRR handlers: stale notifications\<close>

lemma backoffTimer_zero: "backoffTimer (Timer zeroComponent) = 2 * Second"
  by (simp add: backoffTimer_def zeroComponent_def)

lemma handlevrf_mismatch:
  assumes "GetVrf env (ObjectData_Name objectData) = Inr vrf"
    and "ObjectData_ResourceVersion objectData \<noteq> Vrf_ResourceVersion vrf"
  shows "\<exists>c. handlevrf env objectData =
             Some [Call_UpdateVrfStatus (ObjectData_Name objectData)
                     (ObjectData_ResourceVersion objectData)
                     (ObjectData_NotificationID objectData) c] \<and>
           Name c = frrComp \<and> CompStatus c = ComponentStatusError \<and> Timer c = 2 * Second"
  using assms by (simp add: handlevrf_def backoffTimer_zero)

lemma handlesvi_mismatch:
  assumes "GetSvi env (ObjectData_Name objectData) = Inr svi"
    and "ObjectData_ResourceVersion objectData \<noteq> Svi_ResourceVersion svi"
  shows "\<exists>c. handlesvi env objectData =
             Some [Call_UpdateSviStatus (ObjectData_Name objectData)
                     (ObjectData_ResourceVersion objectData)
                     (ObjectData_NotificationID objectData) c] \<and>
           Name c = frrComp \<and> CompStatus c = ComponentStatusError \<and> Timer c = 2 * Second"
  using assms by (simp add: handlesvi_def backoffTimer_zero)

lemma handleTunRep_mismatch:
  assumes "GetTunRep env (ObjectData_Name objectData) = Inr tr"
    and "ObjectData_ResourceVersion objectData \<noteq> TunRep_ResourceVersion tr"
  shows "\<exists>c. handleTunRep env objectData =
             Some [Call_UpdateTunRepStatus (ObjectData_Name objectData)
                     (ObjectData_ResourceVersion objectData)
                     (ObjectData_NotificationID objectData) c] \<and>
           Name c = frrComp \<and> CompStatus c = ComponentStatusError \<and> Timer c = 2 * Second"
  using assms by (simp add: handleTunRep_def backoffTimer_zero)

text \<open>
  C4. For every notification whose \<open>ResourceVersion\<close> differs from that of the
  object the handler fetched again, the FRR handler of the kind (vrf, svi, tun-rep) does
  no set-up and no tear-down: its only call is the status update of the kind, with the
  notification's name, resource version and \<open>NotificationID\<close> and a component named
  \<open>frr\<close> whose status is Error.
\<close>

theorem stale_notification_replies_Error:
  "(\<forall>vrf. GetVrf env (ObjectData_Name objectData) = Inr vrf \<and>
      ObjectData_ResourceVersion objectData \<noteq> Vrf_ResourceVersion vrf \<longrightarrow>
      (\<exists>c. HandleEvent env ''vrf'' objectData =
              Some [Call_UpdateVrfStatus (ObjectData_Name objectData)
                      (ObjectData_ResourceVersion objectData)
                      (ObjectData_NotificationID objectData) c] \<and>
            Name c = frrComp \<and> CompStatus c = ComponentStatusError)) \<and>
   (\<forall>svi. GetSvi env (ObjectData_Name objectData) = Inr svi \<and>
      ObjectData_ResourceVersion objectData \<noteq> Svi_ResourceVersion svi \<longrightarrow>
      (\<exists>c. HandleEvent env ''svi'' objectData =
              Some [Call_UpdateSviStatus (ObjectData_Name objectData)
                      (ObjectData_ResourceVersion objectData)
                      (ObjectData_NotificationID objectData) c] \<and>
            Name c = frrComp \<and> CompStatus c = ComponentStatusError)) \<and>
   (\<forall>tr. GetTunRep env (ObjectData_Name objectData) = Inr tr \<and>
      ObjectData_ResourceVersion objectData \<noteq> TunRep_ResourceVersion tr \<longrightarrow>
      (\<exists>c. HandleEvent env ''tun-rep'' objectData =
              Some [Call_UpdateTunRepStatus (ObjectData_Name objectData)
                      (ObjectData_ResourceVersion objectData)
                      (ObjectData_NotificationID objectData) c] \<and>
            Name c = frrComp \<and> CompStatus c = ComponentStatusError))"
proof (intro conjI allI impI; elim conjE)
  fix vrf
  assume "GetVrf env (ObjectData_Name objectData) = Inr vrf"
    and "ObjectData_ResourceVersion objectData \<noteq> Vrf_ResourceVersion vrf"
  from handlevrf_mismatch [OF this]
  show "\<exists>c. HandleEvent env ''vrf'' objectData =
              Some [Call_UpdateVrfStatus (ObjectData_Name objectData)
                      (ObjectData_ResourceVersion objectData)
                      (ObjectData_NotificationID objectData) c] \<and>
            Name c = frrComp \<and> CompStatus c = ComponentStatusError"
    by (auto simp: HandleEvent_def)
next
  fix svi
  assume "GetSvi env (ObjectData_Name objectData) = Inr svi"
    and "ObjectData_ResourceVersion objectData \<noteq> Svi_ResourceVersion svi"
  from handlesvi_mismatch [OF this]
  show "\<exists>c. HandleEvent env ''svi'' objectData =
              Some [Call_UpdateSviStatus (ObjectData_Name objectData)
                      (ObjectData_ResourceVersion objectData)
                      (ObjectData_NotificationID objectData) c] \<and>
            Name c = frrComp \<and> CompStatus c = ComponentStatusError"
    by (auto simp: HandleEvent_def)
next
  fix tr
  assume "GetTunRep env (ObjectData_Name objectData) = Inr tr"
    and "ObjectData_ResourceVersion objectData \<noteq> TunRep_ResourceVersion tr"
  from handleTunRep_mismatch [OF this]
  show "\<exists>c. HandleEvent env ''tun-rep'' objectData =
              Some [Call_UpdateTunRepStatus (ObjectData_Name objectData)
                      (ObjectData_ResourceVersion objectData)
                      (ObjectData_NotificationID objectData) c] \<and>
            Name c = frrComp \<and> CompStatus c = ComponentStatusError"
    by (auto simp: HandleEvent_def)
qed


theorem stale_notification_replies_Error_witness:
  "GetVrf succeeding_frr_env (ObjectData_Name (vrf_ObjectData ''v0'')) = Inr example_Vrf \<and>
   ObjectData_ResourceVersion (vrf_ObjectData ''v0'') \<noteq> Vrf_ResourceVersion example_Vrf \<and>
   HandleEvent succeeding_frr_env ''vrf'' (vrf_ObjectData ''v0'') =
     Some [Call_UpdateVrfStatus ''//network.opiproject.org/vrfs/v1'' ''v0'' ''n1''
             \<lparr>Name = ''frr'', CompStatus = ComponentStatusError,
              Details = ''FRR: Mismatch in resoruce version v0'' @ LF
                        @ '' and vrf resource version v1'' @ LF,
              Timer = 2000000000\<rparr>] \<and>
   GetSvi succeeding_frr_env (ObjectData_Name (svi_ObjectData ''v0'')) = Inr example_Svi \<and>
   ObjectData_ResourceVersion (svi_ObjectData ''v0'') \<noteq> Svi_ResourceVersion example_Svi \<and>
   HandleEvent succeeding_frr_env ''svi'' (svi_ObjectData ''v0'') =
     Some [Call_UpdateSviStatus ''//network.opiproject.org/svis/svi1'' ''v0'' ''n2''
             \<lparr>Name = ''frr'', CompStatus = ComponentStatusError,
              Details = ''FRR: Mismatch in resoruce version v0'' @ LF
                        @ '' and svi resource version v1'' @ LF,
              Timer = 2000000000\<rparr>] \<and>
   GetTunRep succeeding_frr_env (ObjectData_Name (tunrep_ObjectData ''v0'')) =
     Inr example_TunRep \<and>
   ObjectData_ResourceVersion (tunrep_ObjectData ''v0'')
     \<noteq> TunRep_ResourceVersion example_TunRep \<and>
   HandleEvent succeeding_frr_env ''tun-rep'' (tunrep_ObjectData ''v0'') =
     Some [Call_UpdateTunRepStatus ''//network.opiproject.org/tunreps/t1'' ''v0'' ''n3''
             \<lparr>Name = ''frr'', CompStatus = ComponentStatusError, Details = '''',
              Timer = 2000000000\<rparr>]"
  using stale_notification_replies_Error [of succeeding_frr_env "vrf_ObjectData ''v0''"]
    stale_notification_replies_Error [of succeeding_frr_env "svi_ObjectData ''v0''"]
    stale_notification_replies_Error [of succeeding_frr_env "tunrep_ObjectData ''v0''"]
  by (simp add: HandleEvent_def handlevrf_def handlesvi_def handleTunRep_def
      succeeding_frr_env_def example_GetVrf_def example_GetSvi_def example_GetTunRep_def
      example_Vrf_def example_Svi_def example_TunRep_def
      vrf_ObjectData_def svi_ObjectData_def tunrep_ObjectData_def
      zeroComponent_def backoffTimer_def Second_def frrComp_def)

section \<open>The FRR handlers: the back-off timer\<close>












section \<open>prepareObjectsForReplay\<close>

lemma filter_upt_Cons:
  "filter (\<lambda>i. P ((c # rest) ! i)) [0..<Suc (length rest)] =
     (if P c then [0] else []) @ map Suc (filter (\<lambda>i. P (rest ! i)) [0..<length rest])"
proof -
  have "[0..<Suc (length rest)] = 0 # map Suc [0..<length rest]"
    by (simp add: upt_conv_Cons map_Suc_upt del: upt_Suc)
  then show ?thesis
    by (simp add: filter_map o_def del: upt_Suc)
qed

lemma prepareObjectsForReplay_range_aligned:
  "i + length comps \<le> length subs \<Longrightarrow>
   prepareObjectsForReplay_range componentName subs i comps =
     Some (replayComponents componentName comps,
           map (\<lambda>k. subs ! (i + k))
             (filter (\<lambda>k. needsReplay componentName (comps ! k)) [0..<length comps]))"
proof (induction comps arbitrary: i)
  case Nil
  then show ?case by (simp add: replayComponents_def)
next
  case (Cons c rest)
  from Cons.prems have "Suc i + length rest \<le> length subs" and "i < length subs"
    by simp_all
  with Cons.IH [of "Suc i"] show ?case
    unfolding filter_upt_Cons [of "needsReplay componentName" c rest] length_Cons
    by (simp add: replayComponents_def needsReplay_def pendingOf_def o_def del: upt_Suc)
qed

lemma prepareObjectsForReplay_range_0:
  "length subs = length comps \<Longrightarrow>
   prepareObjectsForReplay_range componentName subs 0 comps =
     Some (replayComponents componentName comps, replaySubscribers componentName comps subs)"
  using prepareObjectsForReplay_range_aligned [of 0 comps subs componentName]
  by (simp add: replaySubscribers_def)

lemma Svi_prepareObjectsForReplay_spec:
  assumes "Svi_Status svi = Some st" and "length subs = length (SviStatus_Components st)"
  shows "\<exists>svi' st'. Svi_prepareObjectsForReplay generateVersion componentName subs svi =
              Some (svi', replaySubscribers componentName (SviStatus_Components st) subs) \<and>
           Svi_Status svi' = Some st' \<and>
           SviStatus_Components st' = replayComponents componentName (SviStatus_Components st) \<and>
           SviStatus_SviOperStatus st' =
             (if SviStatus_SviOperStatus st = SviOperStatusUp then SviOperStatusDown
              else SviStatus_SviOperStatus st) \<and>
           Svi_ResourceVersion svi' = generateVersion \<and>
           Svi_Name svi' = Svi_Name svi \<and> Svi_Spec svi' = Svi_Spec svi \<and>
           Svi_Metadata svi' = Svi_Metadata svi"
  using assms
  by (simp add: Svi_prepareObjectsForReplay_def prepareObjectsForReplay_range_0)

lemma LogicalBridge_prepareObjectsForReplay_spec:
  assumes "LogicalBridge_Status lb = Some st"
    and "length subs = length (LogicalBridgeStatus_Components st)"
  shows "\<exists>lb' st'. LogicalBridge_prepareObjectsForReplay generateVersion componentName subs lb =
              Some (lb', replaySubscribers componentName (LogicalBridgeStatus_Components st) subs) \<and>
           LogicalBridge_Status lb' = Some st' \<and>
           LogicalBridgeStatus_Components st' =
             replayComponents componentName (LogicalBridgeStatus_Components st) \<and>
           LogicalBridgeStatus_LBOperStatus st' =
             (if LogicalBridgeStatus_LBOperStatus st = LogicalBridgeOperStatusUp
              then LogicalBridgeOperStatusDown else LogicalBridgeStatus_LBOperStatus st) \<and>
           LogicalBridge_ResourceVersion lb' = generateVersion \<and>
           LogicalBridge_Name lb' = LogicalBridge_Name lb \<and>
           LogicalBridge_Spec lb' = LogicalBridge_Spec lb \<and>
           LogicalBridge_Metadata lb' = LogicalBridge_Metadata lb \<and>
           LogicalBridge_Svi lb' = LogicalBridge_Svi lb \<and>
           LogicalBridge_BridgePorts lb' = LogicalBridge_BridgePorts lb \<and>
           LogicalBridge_MacTable lb' = LogicalBridge_MacTable lb"
  using assms
  by (simp add: LogicalBridge_prepareObjectsForReplay_def prepareObjectsForReplay_range_0)

lemma BridgePort_prepareObjectsForReplay_spec:
  assumes "BridgePort_Status bp = Some st"
    and "length subs = length (BridgePortStatus_Components st)"
  shows "\<exists>bp' st'. BridgePort_prepareObjectsForReplay generateVersion componentName subs bp =
              Some (bp', replaySubscribers componentName (BridgePortStatus_Components st) subs) \<and>
           BridgePort_Status bp' = Some st' \<and>
           BridgePortStatus_Components st' =
             replayComponents componentName (BridgePortStatus_Components st) \<and>
           BridgePortStatus_BPOperStatus st' =
             (if BridgePortStatus_BPOperStatus st = BridgePortOperStatusUp
              then BridgePortOperStatusDown else BridgePortStatus_BPOperStatus st) \<and>
           BridgePort_ResourceVersion bp' = generateVersion \<and>
           BridgePort_Name bp' = BridgePort_Name bp \<and>
           BridgePort_Spec bp' = BridgePort_Spec bp \<and>
           BridgePort_Metadata bp' = BridgePort_Metadata bp \<and>
           BridgePort_TransparentTrunk bp' = BridgePort_TransparentTrunk bp \<and>
           BridgePort_Vlans bp' = BridgePort_Vlans bp"
  using assms
  by (simp add: BridgePort_prepareObjectsForReplay_def prepareObjectsForReplay_range_0)

lemma Sa_prepareObjectsForReplay_spec:
  assumes "Sa_Status sa = Some st" and "length subs = length (SaStatus_Components st)"
  shows "\<exists>sa' st'. Sa_prepareObjectsForReplay generateVersion componentName subs sa =
              Some (sa', replaySubscribers componentName (SaStatus_Components st) subs) \<and>
           Sa_Status sa' = Some st' \<and>
           SaStatus_Components st' = replayComponents componentName (SaStatus_Components st) \<and>
           SaStatus_SaOperStatus st' =
             (if SaStatus_SaOperStatus st = SaOperStatusUp then SaOperStatusDown
              else SaStatus_SaOperStatus st) \<and>
           Sa_ResourceVersion sa' = generateVersion \<and>
           Sa_Name sa' = Sa_Name sa \<and> Sa_Spec sa' = Sa_Spec sa \<and>
           Sa_Metadata sa' = Sa_Metadata sa \<and> Sa_Vrf sa' = Sa_Vrf sa \<and>
           Sa_Index sa' = Sa_Index sa \<and> Sa_OldVersions sa' = Sa_OldVersions sa"
  using assms
  by (simp add: Sa_prepareObjectsForReplay_def prepareObjectsForReplay_range_0)

text \<open>
  C3. For every domain object (Svi, LogicalBridge, BridgePort, Sa) with a status, every
  component name and every subscriber list aligned index-wise with the object's
  components, \<open>prepareObjectsForReplay\<close> resets to Pending, with empty details, exactly
  the components whose name is the given one or whose status is not Success
  (\<open>replayComponents\<close>) and leaves the others as they were; it turns the operational
  status Up into Down and leaves any other operational status; it assigns the newly
  generated ResourceVersion; it leaves every other field; and it returns exactly the
  subscribers at the indices of the reset components, in order (\<open>replaySubscribers\<close>).
\<close>

theorem prepareObjectsForReplay_resets_and_returns:
  "(\<forall>svi st. Svi_Status svi = Some st \<and> length subs = length (SviStatus_Components st) \<longrightarrow>
      (\<exists>svi' st'. Svi_prepareObjectsForReplay generateVersion componentName subs svi =
            Some (svi', replaySubscribers componentName (SviStatus_Components st) subs) \<and>
         Svi_Status svi' = Some st' \<and>
         SviStatus_Components st' = replayComponents componentName (SviStatus_Components st) \<and>
         SviStatus_SviOperStatus st' =
           (if SviStatus_SviOperStatus st = SviOperStatusUp then SviOperStatusDown
            else SviStatus_SviOperStatus st) \<and>
         Svi_ResourceVersion svi' = generateVersion \<and>
         Svi_Name svi' = Svi_Name svi \<and> Svi_Spec svi' = Svi_Spec svi \<and>
         Svi_Metadata svi' = Svi_Metadata svi)) \<and>
   (\<forall>lb st. LogicalBridge_Status lb = Some st \<and>
        length subs = length (LogicalBridgeStatus_Components st) \<longrightarrow>
      (\<exists>lb' st'. LogicalBridge_prepareObjectsForReplay generateVersion componentName subs lb =
            Some (lb', replaySubscribers componentName (LogicalBridgeStatus_Components st) subs) \<and>
         LogicalBridge_Status lb' = Some st' \<and>
         LogicalBridgeStatus_Components st' =
           replayComponents componentName (LogicalBridgeStatus_Components st) \<and>
         LogicalBridgeStatus_LBOperStatus st' =
           (if LogicalBridgeStatus_LBOperStatus st = LogicalBridgeOperStatusUp
            then LogicalBridgeOperStatusDown else LogicalBridgeStatus_LBOperStatus st) \<and>
         LogicalBridge_ResourceVersion lb' = generateVersion \<and>
         LogicalBridge_Name lb' = LogicalBridge_Name lb \<and>
         LogicalBridge_Spec lb' = LogicalBridge_Spec lb \<and>
         LogicalBridge_Metadata lb' = LogicalBridge_Metadata lb \<and>
         LogicalBridge_Svi lb' = LogicalBridge_Svi lb \<and>
         LogicalBridge_BridgePorts lb' = LogicalBridge_BridgePorts lb \<and>
         LogicalBridge_MacTable lb' = LogicalBridge_MacTable lb)) \<and>
   (\<forall>bp st. BridgePort_Status bp = Some st \<and>
        length subs = length (BridgePortStatus_Components st) \<longrightarrow>
      (\<exists>bp' st'. BridgePort_prepareObjectsForReplay generateVersion componentName subs bp =
            Some (bp', replaySubscribers componentName (BridgePortStatus_Components st) subs) \<and>
         BridgePort_Status bp' = Some st' \<and>
         BridgePortStatus_Components st' =
           replayComponents componentName (BridgePortStatus_Components st) \<and>
         BridgePortStatus_BPOperStatus st' =
           (if BridgePortStatus_BPOperStatus st = BridgePortOperStatusUp
            then BridgePortOperStatusDown else BridgePortStatus_BPOperStatus st) \<and>
         BridgePort_ResourceVersion bp' = generateVersion \<and>
         BridgePort_Name bp' = BridgePort_Name bp \<and>
         BridgePort_Spec bp' = BridgePort_Spec bp \<and>
         BridgePort_Metadata bp' = BridgePort_Metadata bp \<and>
         BridgePort_TransparentTrunk bp' = BridgePort_TransparentTrunk bp \<and>
         BridgePort_Vlans bp' = BridgePort_Vlans bp)) \<and>
   (\<forall>sa st. Sa_Status sa = Some st \<and> length subs = length (SaStatus_Components st) \<longrightarrow>
      (\<exists>sa' st'. Sa_prepareObjectsForReplay generateVersion componentName subs sa =
            Some (sa', replaySubscribers componentName (SaStatus_Components st) subs) \<and>
         Sa_Status sa' = Some st' \<and>
         SaStatus_Components st' = replayComponents componentName (SaStatus_Components st) \<and>
         SaStatus_SaOperStatus st' =
           (if SaStatus_SaOperStatus st = SaOperStatusUp then SaOperStatusDown
            else SaStatus_SaOperStatus st) \<and>
         Sa_ResourceVersion sa' = generateVersion \<and>
         Sa_Name sa' = Sa_Name sa \<and> Sa_Spec sa' = Sa_Spec sa \<and>
         Sa_Metadata sa' = Sa_Metadata sa \<and> Sa_Vrf sa' = Sa_Vrf sa \<and>
         Sa_Index sa' = Sa_Index sa \<and> Sa_OldVersions sa' = Sa_OldVersions sa))"
  by (intro conjI allI impI; elim conjE;
      (erule (1) Svi_prepareObjectsForReplay_spec
       | erule (1) LogicalBridge_prepareObjectsForReplay_spec
       | erule (1) BridgePort_prepareObjectsForReplay_spec
       | erule (1) Sa_prepareObjectsForReplay_spec))

theorem prepareObjectsForReplay_resets_and_returns_witness:
  "Svi_Status example_Svi = Some example_SviStatus \<and>
   length example_subscribers = length (SviStatus_Components example_SviStatus) \<and>
   Svi_prepareObjectsForReplay ''v2'' ''frr'' example_subscribers example_Svi =
     Some (example_Svi\<lparr>Svi_Status := Some
             \<lparr>SviStatus_SviOperStatus = SviOperStatusDown,
              SviStatus_Components =
                [example_components ! 0,
                 \<lparr>Name = ''frr'', CompStatus = ComponentStatusPending, Details = '''', Timer = 0\<rparr>,
                 \<lparr>Name = ''frr'', CompStatus = ComponentStatusPending, Details = '''', Timer = 0\<rparr>]\<rparr>,
             Svi_ResourceVersion := ''v2''\<rparr>,
           [example_subscribers ! 1, example_subscribers ! 2]) \<and>
   LogicalBridge_Status example_LogicalBridge = Some example_LogicalBridgeStatus \<and>
   length example_subscribers =
     length (LogicalBridgeStatus_Components example_LogicalBridgeStatus) \<and>
   map_option snd
     (LogicalBridge_prepareObjectsForReplay ''v2'' ''lvm'' example_subscribers
        example_LogicalBridge) = Some [example_subscribers ! 1] \<and>
   BridgePort_Status example_BridgePort = Some example_BridgePortStatus \<and>
   length example_subscribers = length (BridgePortStatus_Components example_BridgePortStatus) \<and>
   map_option snd
     (BridgePort_prepareObjectsForReplay ''v2'' ''lgm'' example_subscribers example_BridgePort) =
     Some [example_subscribers ! 0, example_subscribers ! 1] \<and>
   Sa_Status example_Sa = Some example_SaStatus \<and>
   length example_subscribers = length (SaStatus_Components example_SaStatus) \<and>
   map_option (\<lambda>r. map_option SaStatus_SaOperStatus (Sa_Status (fst r)))
     (Sa_prepareObjectsForReplay ''v2'' ''frr'' example_subscribers example_Sa) =
     Some (Some SaOperStatusToBeDeleted)"
  using prepareObjectsForReplay_resets_and_returns
          [where subs = example_subscribers and generateVersion = "''v2''"
             and componentName = "''frr''"]
  by (simp add: Svi_prepareObjectsForReplay_def LogicalBridge_prepareObjectsForReplay_def
      BridgePort_prepareObjectsForReplay_def Sa_prepareObjectsForReplay_def
      example_Svi_def example_SviStatus_def example_LogicalBridge_def
      example_LogicalBridgeStatus_def example_BridgePort_def example_BridgePortStatus_def
      example_Sa_def example_SaStatus_def example_components_def example_subscribers_def)

section \<open>setComponentState\<close>

lemma length_setComponentState_range:
  "length (setComponentState_range component comps) = length comps"
  by (induction comps) auto

lemma nth_setComponentState_range:
  "i < length comps \<Longrightarrow>
   setComponentState_range component comps ! i =
     (if Name (comps ! i) = Name component \<and> (\<forall>j<i. Name (comps ! j) \<noteq> Name component)
      then component else comps ! i)"
proof (induction comps arbitrary: i)
  case Nil
  then show ?case by simp
next
  case (Cons c rest)
  show ?case
  proof (cases i)
    case 0
    then show ?thesis by simp
  next
    case (Suc k)
    with Cons.prems have k: "k < length rest" by simp
    show ?thesis
    proof (cases "Name c = Name component")
      case True
      then have "\<not> (\<forall>j<i. Name ((c # rest) ! j) \<noteq> Name component)"
        using Suc by auto
      with True Suc show ?thesis by auto
    next
      case False
      have "(\<forall>j<Suc k. Name ((c # rest) ! j) \<noteq> Name component) \<longleftrightarrow>
            (\<forall>j<k. Name (rest ! j) \<noteq> Name component)"
        using False by (auto simp: less_Suc_eq_0_disj)
      with False Suc Cons.IH [OF k] show ?thesis by auto
    qed
  qed
qed

lemma setComponentState_range_replaces:
  "replaces_first_match component comps (setComponentState_range component comps)"
  by (simp add: replaces_first_match_def nth_setComponentState_range
      length_setComponentState_range)

lemma setComponentState_range_no_match:
  "(\<forall>c \<in> set comps. Name c \<noteq> Name component) \<Longrightarrow>
   setComponentState_range component comps = comps"
  by (induction comps) auto

lemma Svi_setComponentState_frame:
  assumes "Svi_Status svi = Some st"
  shows "\<exists>svi' st'. Svi_setComponentState svi component = Some svi' \<and>
           Svi_Status svi' = Some st' \<and>
           replaces_first_match component (SviStatus_Components st) (SviStatus_Components st') \<and>
           SviStatus_SviOperStatus st' = SviStatus_SviOperStatus st \<and>
           Svi_Name svi' = Svi_Name svi \<and> Svi_Spec svi' = Svi_Spec svi \<and>
           Svi_Metadata svi' = Svi_Metadata svi \<and>
           Svi_ResourceVersion svi' = Svi_ResourceVersion svi \<and>
           ((\<forall>c \<in> set (SviStatus_Components st). Name c \<noteq> Name component) \<longrightarrow> svi' = svi)"
  using assms
  by (simp add: Svi_setComponentState_def setComponentState_range_replaces
      setComponentState_range_no_match)

lemma LogicalBridge_setComponentState_frame:
  assumes "LogicalBridge_Status lb = Some st"
  shows "\<exists>lb' st'. LogicalBridge_setComponentState lb component = Some lb' \<and>
           LogicalBridge_Status lb' = Some st' \<and>
           replaces_first_match component (LogicalBridgeStatus_Components st)
             (LogicalBridgeStatus_Components st') \<and>
           LogicalBridgeStatus_LBOperStatus st' = LogicalBridgeStatus_LBOperStatus st \<and>
           LogicalBridge_Name lb' = LogicalBridge_Name lb \<and>
           LogicalBridge_Spec lb' = LogicalBridge_Spec lb \<and>
           LogicalBridge_Metadata lb' = LogicalBridge_Metadata lb \<and>
           LogicalBridge_Svi lb' = LogicalBridge_Svi lb \<and>
           LogicalBridge_BridgePorts lb' = LogicalBridge_BridgePorts lb \<and>
           LogicalBridge_MacTable lb' = LogicalBridge_MacTable lb \<and>
           LogicalBridge_ResourceVersion lb' = LogicalBridge_ResourceVersion lb \<and>
           ((\<forall>c \<in> set (LogicalBridgeStatus_Components st). Name c \<noteq> Name component)
              \<longrightarrow> lb' = lb)"
  using assms
  by (simp add: LogicalBridge_setComponentState_def setComponentState_range_replaces
      setComponentState_range_no_match)

lemma BridgePort_setComponentState_frame:
  assumes "BridgePort_Status bp = Some st"
  shows "\<exists>bp' st'. BridgePort_setComponentState bp component = Some bp' \<and>
           BridgePort_Status bp' = Some st' \<and>
           replaces_first_match component (BridgePortStatus_Components st)
             (BridgePortStatus_Components st') \<and>
           BridgePortStatus_BPOperStatus st' = BridgePortStatus_BPOperStatus st \<and>
           BridgePort_Name bp' = BridgePort_Name bp \<and>
           BridgePort_Spec bp' = BridgePort_Spec bp \<and>
           BridgePort_Metadata bp' = BridgePort_Metadata bp \<and>
           BridgePort_TransparentTrunk bp' = BridgePort_TransparentTrunk bp \<and>
           BridgePort_Vlans bp' = BridgePort_Vlans bp \<and>
           BridgePort_ResourceVersion bp' = BridgePort_ResourceVersion bp \<and>
           ((\<forall>c \<in> set (BridgePortStatus_Components st). Name c \<noteq> Name component)
              \<longrightarrow> bp' = bp)"
  using assms
  by (simp add: BridgePort_setComponentState_def setComponentState_range_replaces
      setComponentState_range_no_match)

lemma Sa_setComponentState_frame:
  assumes "Sa_Status sa = Some st"
  shows "\<exists>sa' st'. Sa_setComponentState sa component = Some sa' \<and>
           Sa_Status sa' = Some st' \<and>
           replaces_first_match component (SaStatus_Components st) (SaStatus_Components st') \<and>
           SaStatus_SaOperStatus st' = SaStatus_SaOperStatus st \<and>
           Sa_Name sa' = Sa_Name sa \<and> Sa_Spec sa' = Sa_Spec sa \<and>
           Sa_Metadata sa' = Sa_Metadata sa \<and> Sa_Vrf sa' = Sa_Vrf sa \<and>
           Sa_Index sa' = Sa_Index sa \<and> Sa_OldVersions sa' = Sa_OldVersions sa \<and>
           Sa_ResourceVersion sa' = Sa_ResourceVersion sa \<and>
           ((\<forall>c \<in> set (SaStatus_Components st). Name c \<noteq> Name component) \<longrightarrow> sa' = sa)"
  using assms
  by (simp add: Sa_setComponentState_def setComponentState_range_replaces
      setComponentState_range_no_match)

text \<open>
  C10. For every domain object (Svi, LogicalBridge, BridgePort, Sa) with a status and
  every component value, \<open>setComponentState\<close> replaces at most the first entry of
  \<open>Status.Components\<close> whose name is the component's; every other entry, the length
  and the order of the list and every other field of the object (Name, Spec, Metadata,
  ResourceVersion, the operational status, the references) are unchanged; when no entry
  has that name, the whole object is unchanged.
\<close>

theorem setComponentState_replaces_first_match_only:
  "(\<forall>svi st. Svi_Status svi = Some st \<longrightarrow>
      (\<exists>svi' st'. Svi_setComponentState svi component = Some svi' \<and>
         Svi_Status svi' = Some st' \<and>
         replaces_first_match component (SviStatus_Components st) (SviStatus_Components st') \<and>
         SviStatus_SviOperStatus st' = SviStatus_SviOperStatus st \<and>
         Svi_Name svi' = Svi_Name svi \<and> Svi_Spec svi' = Svi_Spec svi \<and>
         Svi_Metadata svi' = Svi_Metadata svi \<and>
         Svi_ResourceVersion svi' = Svi_ResourceVersion svi \<and>
         ((\<forall>c \<in> set (SviStatus_Components st). Name c \<noteq> Name component) \<longrightarrow> svi' = svi))) \<and>
   (\<forall>lb st. LogicalBridge_Status lb = Some st \<longrightarrow>
      (\<exists>lb' st'. LogicalBridge_setComponentState lb component = Some lb' \<and>
         LogicalBridge_Status lb' = Some st' \<and>
         replaces_first_match component (LogicalBridgeStatus_Components st)
           (LogicalBridgeStatus_Components st') \<and>
         LogicalBridgeStatus_LBOperStatus st' = LogicalBridgeStatus_LBOperStatus st \<and>
         LogicalBridge_Name lb' = LogicalBridge_Name lb \<and>
         LogicalBridge_Spec lb' = LogicalBridge_Spec lb \<and>
         LogicalBridge_Metadata lb' = LogicalBridge_Metadata lb \<and>
         LogicalBridge_Svi lb' = LogicalBridge_Svi lb \<and>
         LogicalBridge_BridgePorts lb' = LogicalBridge_BridgePorts lb \<and>
         LogicalBridge_MacTable lb' = LogicalBridge_MacTable lb \<and>
         LogicalBridge_ResourceVersion lb' = LogicalBridge_ResourceVersion lb \<and>
         ((\<forall>c \<in> set (LogicalBridgeStatus_Components st). Name c \<noteq> Name component)
            \<longrightarrow> lb' = lb))) \<and>
   (\<forall>bp st. BridgePort_Status bp = Some st \<longrightarrow>
      (\<exists>bp' st'. BridgePort_setComponentState bp component = Some bp' \<and>
         BridgePort_Status bp' = Some st' \<and>
         replaces_first_match component (BridgePortStatus_Components st)
           (BridgePortStatus_Components st') \<and>
         BridgePortStatus_BPOperStatus st' = BridgePortStatus_BPOperStatus st \<and>
         BridgePort_Name bp' = BridgePort_Name bp \<and>
         BridgePort_Spec bp' = BridgePort_Spec bp \<and>
         BridgePort_Metadata bp' = BridgePort_Metadata bp \<and>
         BridgePort_TransparentTrunk bp' = BridgePort_TransparentTrunk bp \<and>
         BridgePort_Vlans bp' = BridgePort_Vlans bp \<and>
         BridgePort_ResourceVersion bp' = BridgePort_ResourceVersion bp \<and>
         ((\<forall>c \<in> set (BridgePortStatus_Components st). Name c \<noteq> Name component)
            \<longrightarrow> bp' = bp))) \<and>
   (\<forall>sa st. Sa_Status sa = Some st \<longrightarrow>
      (\<exists>sa' st'. Sa_setComponentState sa component = Some sa' \<and>
         Sa_Status sa' = Some st' \<and>
         replaces_first_match component (SaStatus_Components st) (SaStatus_Components st') \<and>
         SaStatus_SaOperStatus st' = SaStatus_SaOperStatus st \<and>
         Sa_Name sa' = Sa_Name sa \<and> Sa_Spec sa' = Sa_Spec sa \<and>
         Sa_Metadata sa' = Sa_Metadata sa \<and> Sa_Vrf sa' = Sa_Vrf sa \<and>
         Sa_Index sa' = Sa_Index sa \<and> Sa_OldVersions sa' = Sa_OldVersions sa \<and>
         Sa_ResourceVersion sa' = Sa_ResourceVersion sa \<and>
         ((\<forall>c \<in> set (SaStatus_Components st). Name c \<noteq> Name component) \<longrightarrow> sa' = sa)))"
  using Svi_setComponentState_frame LogicalBridge_setComponentState_frame
    BridgePort_setComponentState_frame Sa_setComponentState_frame
  by blast

theorem setComponentState_replaces_first_match_only_witness:
  "Svi_Status example_Svi = Some example_SviStatus \<and>
   Svi_setComponentState example_Svi example_component =
     Some (example_Svi\<lparr>Svi_Status := Some (example_SviStatus\<lparr>SviStatus_Components :=
       [example_components ! 0, example_component, example_components ! 2]\<rparr>)\<rparr>) \<and>
   LogicalBridge_Status example_LogicalBridge = Some example_LogicalBridgeStatus \<and>
   LogicalBridge_setComponentState example_LogicalBridge example_component =
     Some (example_LogicalBridge\<lparr>LogicalBridge_Status :=
       Some (example_LogicalBridgeStatus\<lparr>LogicalBridgeStatus_Components :=
         [example_components ! 0, example_component, example_components ! 2]\<rparr>)\<rparr>) \<and>
   BridgePort_Status example_BridgePort = Some example_BridgePortStatus \<and>
   BridgePort_setComponentState example_BridgePort example_component =
     Some (example_BridgePort\<lparr>BridgePort_Status :=
       Some (example_BridgePortStatus\<lparr>BridgePortStatus_Components :=
         [example_components ! 0, example_component, example_components ! 2]\<rparr>)\<rparr>) \<and>
   Sa_Status example_Sa = Some example_SaStatus \<and>
   Sa_setComponentState example_Sa example_component =
     Some (example_Sa\<lparr>Sa_Status := Some (example_SaStatus\<lparr>SaStatus_Components :=
       [example_components ! 0, example_component, example_components ! 2]\<rparr>)\<rparr>) \<and>
   Svi_setComponentState example_Svi (example_component\<lparr>Name := ''lvm''\<rparr>) =
     Some example_Svi"
  using setComponentState_replaces_first_match_only [of example_component]
  by (simp add: Svi_setComponentState_def LogicalBridge_setComponentState_def
      BridgePort_setComponentState_def Sa_setComponentState_def
      example_Svi_def example_SviStatus_def example_LogicalBridge_def
      example_LogicalBridgeStatus_def example_BridgePort_def example_BridgePortStatus_def
      example_Sa_def example_SaStatus_def example_components_def example_component_def)

section \<open>The constructors\<close>

lemma pendingComponents_map:
  "pendingComponents subscribers =
     map (\<lambda>sub. \<lparr>Name = Subscriber_Name sub, CompStatus = ComponentStatusPending,
                   Details = '''', Timer = 0\<rparr>) subscribers"
  by (induction subscribers) auto

lemma pendingPerSubscriber_pendingComponents:
  "pendingPerSubscriber subscribers (pendingComponents subscribers)"
  by (simp add: pendingPerSubscriber_def pendingComponents_map)

text \<open>
  C5. Every object that \<open>NewSvi\<close>, \<open>NewLogicalBridge\<close> or \<open>NewBridgePort\<close>
  returns without an error has operational status Down and a Components list with
  exactly one entry per subscriber registered for its kind, in the order of the
  subscribers' list, each entry Pending with empty details (\<open>pendingPerSubscriber\<close>).
\<close>

theorem constructors_start_Down_and_Pending:
  "(\<forall>svi. NewSvi GetSubscribers generateVersion pbSvi = (svi, None) \<longrightarrow>
      (\<exists>st. Svi_Status svi = Some st \<and>
         SviStatus_SviOperStatus st = SviOperStatusDown \<and>
         pendingPerSubscriber (GetSubscribers ''svi'') (SviStatus_Components st))) \<and>
   (\<forall>lb. NewLogicalBridge GetSubscribers generateVersion defaultVtepIP pbLogicalBridge = (lb, None) \<longrightarrow>
      (\<exists>st. LogicalBridge_Status lb = Some st \<and>
         LogicalBridgeStatus_LBOperStatus st = LogicalBridgeOperStatusDown \<and>
         pendingPerSubscriber (GetSubscribers ''logical-bridge'')
           (LogicalBridgeStatus_Components st))) \<and>
   (\<forall>bp. NewBridgePort GetSubscribers generateVersion pbBridgePort = (bp, None) \<longrightarrow>
      (\<exists>st. BridgePort_Status bp = Some st \<and>
         BridgePortStatus_BPOperStatus st = BridgePortOperStatusDown \<and>
         pendingPerSubscriber (GetSubscribers ''bridge-port'') (BridgePortStatus_Components st)))"
  by (auto simp: NewSvi_def NewLogicalBridge_def NewBridgePort_def Let_def
      pendingPerSubscriber_pendingComponents split: if_splits)

theorem constructors_start_Down_and_Pending_witness:
  "snd (NewSvi example_GetSubscribers ''v1'' example_pb_Svi) = None \<and>
   Svi_Status (fst (NewSvi example_GetSubscribers ''v1'' example_pb_Svi)) =
     Some \<lparr>SviStatus_SviOperStatus = SviOperStatusDown,
         SviStatus_Components =
           [\<lparr>Name = ''lgm'', CompStatus = ComponentStatusPending, Details = '''', Timer = 0\<rparr>,
            \<lparr>Name = ''frr'', CompStatus = ComponentStatusPending, Details = '''', Timer = 0\<rparr>,
            \<lparr>Name = ''lvm'', CompStatus = ComponentStatusPending, Details = '''', Timer = 0\<rparr>]\<rparr> \<and>
   snd (NewLogicalBridge example_GetSubscribers ''v1'' example_defaultVtepIP
          example_pb_LogicalBridge) = None \<and>
   map_option LogicalBridgeStatus_LBOperStatus
     (LogicalBridge_Status (fst (NewLogicalBridge example_GetSubscribers ''v1''
        example_defaultVtepIP example_pb_LogicalBridge))) = Some LogicalBridgeOperStatusDown \<and>
   snd (NewBridgePort example_GetSubscribers ''v1'' example_pb_BridgePort) = None \<and>
   map_option BridgePortStatus_Components
     (BridgePort_Status (fst (NewBridgePort example_GetSubscribers ''v1''
        example_pb_BridgePort))) =
     Some [\<lparr>Name = ''lgm'', CompStatus = ComponentStatusPending, Details = '''', Timer = 0\<rparr>,
           \<lparr>Name = ''frr'', CompStatus = ComponentStatusPending, Details = '''', Timer = 0\<rparr>,
           \<lparr>Name = ''lvm'', CompStatus = ComponentStatusPending, Details = '''', Timer = 0\<rparr>]"
  using constructors_start_Down_and_Pending
          [of example_GetSubscribers "''v1''" example_pb_Svi example_defaultVtepIP
           example_pb_LogicalBridge example_pb_BridgePort]
  by (simp add: NewSvi_def NewLogicalBridge_def NewBridgePort_def Let_def
       example_GetSubscribers_def example_subscribers_def)

text \<open>
  C9. For every input message, when the event bus has no subscriber registered for the
  kind, \<open>NewSvi\<close>, \<open>NewLogicalBridge\<close> and \<open>NewBridgePort\<close> return an error and
  the empty object; hence an object they return without an error has a component list
  that is not empty.
\<close>

theorem constructors_refuse_without_subscribers:
  "(GetSubscribers ''svi'' = [] \<longrightarrow>
      NewSvi GetSubscribers generateVersion pbSvi =
        (emptySvi, Some (errors_New ''no subscribers found for svi''))) \<and>
   (GetSubscribers ''logical-bridge'' = [] \<longrightarrow>
      NewLogicalBridge GetSubscribers generateVersion defaultVtepIP pbLogicalBridge =
        (emptyLogicalBridge, Some (errors_New ''no subscribers found for logical bridge''))) \<and>
   (GetSubscribers ''bridge-port'' = [] \<longrightarrow>
      NewBridgePort GetSubscribers generateVersion pbBridgePort =
        (emptyBridgePort, Some (errors_New ''no subscribers found for bridge port''))) \<and>
   (\<forall>svi. NewSvi GetSubscribers generateVersion pbSvi = (svi, None) \<longrightarrow>
      (\<exists>st. Svi_Status svi = Some st \<and> SviStatus_Components st \<noteq> [])) \<and>
   (\<forall>lb. NewLogicalBridge GetSubscribers generateVersion defaultVtepIP pbLogicalBridge = (lb, None) \<longrightarrow>
      (\<exists>st. LogicalBridge_Status lb = Some st \<and> LogicalBridgeStatus_Components st \<noteq> [])) \<and>
   (\<forall>bp. NewBridgePort GetSubscribers generateVersion pbBridgePort = (bp, None) \<longrightarrow>
      (\<exists>st. BridgePort_Status bp = Some st \<and> BridgePortStatus_Components st \<noteq> []))"
  by (auto simp: NewSvi_def NewLogicalBridge_def NewBridgePort_def Let_def
      pendingComponents_map split: if_splits)

theorem constructors_refuse_without_subscribers_witness:
  "no_GetSubscribers ''svi'' = [] \<and>
   NewSvi no_GetSubscribers ''v1'' example_pb_Svi =
     (emptySvi, Some (errors_New ''no subscribers found for svi'')) \<and>
   no_GetSubscribers ''logical-bridge'' = [] \<and>
   NewLogicalBridge no_GetSubscribers ''v1'' example_defaultVtepIP example_pb_LogicalBridge =
     (emptyLogicalBridge, Some (errors_New ''no subscribers found for logical bridge'')) \<and>
   no_GetSubscribers ''bridge-port'' = [] \<and>
   NewBridgePort no_GetSubscribers ''v1'' example_pb_BridgePort =
     (emptyBridgePort, Some (errors_New ''no subscribers found for bridge port''))"
  using constructors_refuse_without_subscribers
          [of no_GetSubscribers "''v1''" example_pb_Svi example_defaultVtepIP
           example_pb_LogicalBridge example_pb_BridgePort]
  by (simp add: no_GetSubscribers_def)

section \<open>The references of a logical bridge\<close>










section \<open>validateSviSpec\<close>

text \<open>
  C8, as the claim states it, fails: \<open>validateSviSpec\<close> compares \<open>RemoteAs\<close> with
  65535 only, so a spec with valid names and MAC address whose \<open>RemoteAs\<close> is 0, the
  value of the field when it is not set, lies outside 1..65535 and is accepted.
\<close>

theorem validateSviSpec_accepts_unset_RemoteAs:
  "example_resourcename_Validate
     (pb_SviSpec_LogicalBridge (pb_Svi_Spec example_pb_Svi_no_bgp)) = None \<and>
   example_resourcename_Validate (pb_SviSpec_Vrf (pb_Svi_Spec example_pb_Svi_no_bgp)) = None \<and>
   example_ValidateMacAddress (pb_SviSpec_MacAddress (pb_Svi_Spec example_pb_Svi_no_bgp)) = None \<and>
   \<not> (1 \<le> pb_SviSpec_RemoteAs (pb_Svi_Spec example_pb_Svi_no_bgp) \<and>
      pb_SviSpec_RemoteAs (pb_Svi_Spec example_pb_Svi_no_bgp) \<le> 65535) \<and>
   validateSviSpec example_resourcename_Validate example_ValidateMacAddress
     example_pb_Svi_no_bgp = None"
  by (simp add: validateSviSpec_def example_resourcename_Validate_def
      example_ValidateMacAddress_def example_pb_Svi_no_bgp_def example_pb_Svi_def)

text \<open>
  C8, amended. With resource names and MAC address valid, \<open>validateSviSpec\<close> returns
  an InvalidArgument error for every SVI spec whose \<open>RemoteAs\<close> is greater than 65535,
  accepts every spec whose \<open>RemoteAs\<close> lies within 1..65535, and accepts
  \<open>RemoteAs\<close> 0, the unset value, of a spec that does not enable BGP.
\<close>

theorem validateSviSpec_RemoteAs_range:
  assumes "resourcename_Validate (pb_SviSpec_LogicalBridge (pb_Svi_Spec svi)) = None"
    and "resourcename_Validate (pb_SviSpec_Vrf (pb_Svi_Spec svi)) = None"
    and "ValidateMacAddress (pb_SviSpec_MacAddress (pb_Svi_Spec svi)) = None"
  shows "(65535 < pb_SviSpec_RemoteAs (pb_Svi_Spec svi) \<longrightarrow>
           validateSviSpec resourcename_Validate ValidateMacAddress svi =
             Some (status_Errorf InvalidArgument ''RemoteAs must be in range 1-65535'')) \<and>
         (1 \<le> pb_SviSpec_RemoteAs (pb_Svi_Spec svi) \<and>
          pb_SviSpec_RemoteAs (pb_Svi_Spec svi) \<le> 65535 \<longrightarrow>
           validateSviSpec resourcename_Validate ValidateMacAddress svi = None) \<and>
         (pb_SviSpec_RemoteAs (pb_Svi_Spec svi) = 0 \<and>
          \<not> pb_SviSpec_EnableBgp (pb_Svi_Spec svi) \<longrightarrow>
           validateSviSpec resourcename_Validate ValidateMacAddress svi = None)"
  using assms by (auto simp: validateSviSpec_def)

theorem validateSviSpec_RemoteAs_range_witness:
  "example_resourcename_Validate
     (pb_SviSpec_LogicalBridge (pb_Svi_Spec example_pb_Svi_large_as)) = None \<and>
   example_resourcename_Validate (pb_SviSpec_Vrf (pb_Svi_Spec example_pb_Svi_large_as)) = None \<and>
   example_ValidateMacAddress
     (pb_SviSpec_MacAddress (pb_Svi_Spec example_pb_Svi_large_as)) = None \<and>
   65535 < pb_SviSpec_RemoteAs (pb_Svi_Spec example_pb_Svi_large_as) \<and>
   validateSviSpec example_resourcename_Validate example_ValidateMacAddress
     example_pb_Svi_large_as =
     Some (status_Errorf InvalidArgument ''RemoteAs must be in range 1-65535'') \<and>
   example_resourcename_Validate (pb_SviSpec_LogicalBridge (pb_Svi_Spec example_pb_Svi)) = None \<and>
   example_resourcename_Validate (pb_SviSpec_Vrf (pb_Svi_Spec example_pb_Svi)) = None \<and>
   example_ValidateMacAddress (pb_SviSpec_MacAddress (pb_Svi_Spec example_pb_Svi)) = None \<and>
   1 \<le> pb_SviSpec_RemoteAs (pb_Svi_Spec example_pb_Svi) \<and>
   pb_SviSpec_RemoteAs (pb_Svi_Spec example_pb_Svi) \<le> 65535 \<and>
   validateSviSpec example_resourcename_Validate example_ValidateMacAddress example_pb_Svi = None \<and>
   pb_SviSpec_RemoteAs (pb_Svi_Spec example_pb_Svi_no_bgp) = 0 \<and>
   \<not> pb_SviSpec_EnableBgp (pb_Svi_Spec example_pb_Svi_no_bgp) \<and>
   validateSviSpec example_resourcename_Validate example_ValidateMacAddress
     example_pb_Svi_no_bgp = None"
  using
    validateSviSpec_RemoteAs_range
      [of example_resourcename_Validate example_pb_Svi_large_as example_ValidateMacAddress]
    validateSviSpec_RemoteAs_range
      [of example_resourcename_Validate example_pb_Svi example_ValidateMacAddress]
    validateSviSpec_RemoteAs_range
      [of example_resourcename_Validate example_pb_Svi_no_bgp example_ValidateMacAddress]
  by (simp add: example_resourcename_Validate_def example_ValidateMacAddress_def
      example_pb_Svi_large_as_def example_pb_Svi_no_bgp_def example_pb_Svi_def)

end
